theory Spec2Isabelle
  imports Main "HOL-Library.Char_ord" "HOL-Library.List_Lexorder"
begin

section \<open>Diagnostics (internal/diagnostics/diagnostics.go)\<close>

subsection \<open>The proto diagnostic (package pb)\<close>

text \<open>
  The generated proto messages the diagnostics package builds. A pointer field is an
  \<open>option\<close> (\<open>None\<close> is Go's nil); an \<open>int64\<close> field is an \<open>int\<close>.
\<close>

datatype pb_Severity = SEVERITY_UNKNOWN | SEVERITY_ERROR | SEVERITY_WARNING

record pb_Range_Pos =
  Line :: int
  Column :: int
  Byte :: int

record pb_Range =
  Filename :: string
  Start :: "pb_Range_Pos option"
  End :: "pb_Range_Pos option"

record pb_ExpressionValue =
  Traversal :: string
  Statement :: string

record pb_Snippet =
  Context :: string
  Code :: string
  StartLine :: int
  HighlightStartOffset :: int
  HighlightEndOffset :: int
  Values :: "pb_ExpressionValue list"

record pb_Diagnostic =
  Severity :: pb_Severity
  Summary :: string
  Detail :: string
  Range :: "pb_Range option"
  Snippet :: "pb_Snippet option"

text \<open>
  A panic of the Go runtime is a value of the model: a function that can panic returns
  \<open>panic + 'a\<close>, with \<open>Inl\<close> for the panic.
\<close>

datatype panic = NilPointerDereference | IndexOutOfRange

subsection \<open>FromErr\<close>

text \<open>
  A Go \<open>error\<close> is an interface value of which only \<open>Error()\<close> is read; the nil error
  is \<open>None\<close>.
\<close>

datatype go_error = GoError (Error: string)

definition FromErr :: "go_error option \<Rightarrow> pb_Diagnostic list" where
  "FromErr err =
     (case err of
        None \<Rightarrow> []
      | Some e \<Rightarrow>
          [\<lparr>Severity = SEVERITY_ERROR, Summary = Error e, Detail = [],
            Range = None, Snippet = None\<rparr>])"

subsection \<open>FromTFJSON\<close>

text \<open>
  The terraform-json diagnostic, an external library's type: \<open>Range\<close>, \<open>Snippet\<close> and
  the snippet's \<open>Context\<close> are pointers there. \<open>DiagnosticSeverity\<close> is a string type
  with the constants \<open>error\<close>, \<open>warning\<close> and \<open>unknown\<close>.
\<close>

record tf_Pos =
  tf_Line :: int
  tf_Column :: int
  tf_Byte :: int

record tf_Range =
  tf_Filename :: string
  tf_Start :: tf_Pos
  tf_End :: tf_Pos

record tf_ExpressionValue =
  tf_Traversal :: string
  tf_Statement :: string

record tf_Snippet =
  tf_Context :: "string option"
  tf_Code :: string
  tf_StartLine :: int
  tf_HighlightStartOffset :: int
  tf_HighlightEndOffset :: int
  tf_Values :: "tf_ExpressionValue list"

record tf_Diagnostic =
  tf_Severity :: string
  tf_Summary :: string
  tf_Detail :: string
  tf_Range :: "tf_Range option"
  tf_Snippet :: "tf_Snippet option"

definition DiagnosticSeverityError :: string where
  "DiagnosticSeverityError = ''error''"

definition DiagnosticSeverityWarning :: string where
  "DiagnosticSeverityWarning = ''warning''"

definition tfRange :: "tf_Range \<Rightarrow> pb_Range" where
  "tfRange r =
     \<lparr>Filename = tf_Filename r,
      Start = Some \<lparr>Line = tf_Line (tf_Start r), Column = tf_Column (tf_Start r),
                    Byte = tf_Byte (tf_Start r)\<rparr>,
      End = Some \<lparr>Line = tf_Line (tf_End r), Column = tf_Column (tf_End r),
                  Byte = tf_Byte (tf_End r)\<rparr>\<rparr>"

definition tfSeverity :: "string \<Rightarrow> pb_Severity" where
  "tfSeverity s =
     (if s = DiagnosticSeverityError then SEVERITY_ERROR
      else if s = DiagnosticSeverityWarning then SEVERITY_WARNING
      else SEVERITY_UNKNOWN)"

definition tfValue :: "tf_ExpressionValue \<Rightarrow> pb_ExpressionValue" where
  "tfValue e = \<lparr>Traversal = tf_Traversal e, Statement = tf_Statement e\<rparr>"

text \<open>
  One pass of the loop body of \<open>FromTFJSON\<close>. The body reads \<open>din.Range.Filename\<close>,
  \<open>din.Snippet.Context\<close> and \<open>*din.Snippet.Context\<close> with no nil check before them:
  each is a nil-pointer panic when the pointer is nil. The snippet is built twice in the
  source, the second one (with the values) replacing the first.
\<close>

definition fromTFJSONDiag :: "tf_Diagnostic \<Rightarrow> panic + pb_Diagnostic" where
  "fromTFJSONDiag din =
     (case tf_Range din of
        None \<Rightarrow> Inl NilPointerDereference
      | Some r \<Rightarrow>
          (case tf_Snippet din of
             None \<Rightarrow> Inl NilPointerDereference
           | Some sn \<Rightarrow>
               (case tf_Context sn of
                  None \<Rightarrow> Inl NilPointerDereference
                | Some c \<Rightarrow>
                    Inr \<lparr>Severity = tfSeverity (tf_Severity din),
                         Summary = tf_Summary din,
                         Detail = tf_Detail din,
                         Range = Some (tfRange r),
                         Snippet = Some
                           \<lparr>Context = c, Code = tf_Code sn,
                            StartLine = tf_StartLine sn,
                            HighlightStartOffset = tf_HighlightStartOffset sn,
                            HighlightEndOffset = tf_HighlightEndOffset sn,
                            Values = map tfValue (tf_Values sn)\<rparr>\<rparr>)))"

text \<open>The loop of \<open>FromTFJSON\<close>: the first panic ends the call.\<close>

fun FromTFJSON_loop :: "tf_Diagnostic list \<Rightarrow> pb_Diagnostic list \<Rightarrow> panic + pb_Diagnostic list" where
  "FromTFJSON_loop [] out = Inr out"
| "FromTFJSON_loop (din # rest) out =
     (case fromTFJSONDiag din of
        Inl p \<Rightarrow> Inl p
      | Inr d \<Rightarrow> FromTFJSON_loop rest (out @ [d]))"

definition FromTFJSON :: "tf_Diagnostic list \<Rightarrow> panic + pb_Diagnostic list" where
  "FromTFJSON ins = (if length ins < 1 then Inr [] else FromTFJSON_loop ins [])"

text \<open>A diagnostic of the external engine with no source location: no range, no snippet.\<close>

definition tfNoLocation :: tf_Diagnostic where
  "tfNoLocation =
     \<lparr>tf_Severity = ''error'', tf_Summary = ''Failed to install provider'',
      tf_Detail = [], tf_Range = None, tf_Snippet = None\<rparr>"

subsection \<open>FromHCL\<close>

text \<open>
  Go's \<open>int\<close> is a 64-bit two's complement integer: the model computes on \<open>int\<close>
  and writes the wrap-around out at every addition and subtraction of the source.
\<close>

definition wrap64 :: "int \<Rightarrow> int" where
  "wrap64 x = (x + 2 ^ 63) mod 2 ^ 64 - 2 ^ 63"

text \<open>The parser library's positions, ranges and diagnostics (package hcl).\<close>

record hcl_Pos =
  hcl_Line :: int
  hcl_Column :: int
  hcl_Byte :: int

record hcl_Range =
  hcl_Filename :: string
  hcl_Start :: hcl_Pos
  hcl_End :: hcl_Pos

datatype hcl_DiagnosticSeverity = DiagInvalid | DiagError | DiagWarning

text \<open>
  A traversal is a list of steps; the key of an index step is a dynamic value. Step
  kinds other than root, attribute and index (a splat) are written by \<open>traversalStr\<close>
  as nothing.
\<close>

datatype 'val Traverser =
  TraverseRoot string | TraverseAttr string | TraverseIndex 'val | TraverseSplat

type_synonym 'val Traversal = "'val Traverser list"

text \<open>
  Of a diagnostic's \<open>Expression\<close> (an interface) only \<open>Variables()\<close> is read: the field
  holds that list of traversals, \<open>None\<close> for the nil expression.
\<close>

record ('ctx, 'val) hcl_Diagnostic =
  hcl_Severity :: hcl_DiagnosticSeverity
  hcl_Summary :: string
  hcl_Detail :: string
  Subject :: "hcl_Range option"
  hcl_Context :: "hcl_Range option"
  Expression :: "'val Traversal list option"
  hcl_EvalContext :: 'ctx

record hcl_File =
  Bytes :: "string option"

definition HasErrors :: "('ctx, 'val, 'more) hcl_Diagnostic_scheme list \<Rightarrow> bool" where
  "HasErrors diags = (\<exists>d \<in> set diags. hcl_Severity d = DiagError)"

text \<open>
  What \<open>FromHCL\<close> calls in the libraries (hcl, hcled, hclparse, cty) is a parameter of
  the model, one field per function. \<open>ScanLines\<close> is the list of ranges a
  \<open>RangeScanner\<close> over the bytes yields with \<open>bufio.ScanLines\<close>. \<open>ContextString\<close> takes
  the source bytes and file name that \<open>parseRange\<close> parses again, and the offset.
  \<open>compactValueStr\<close> (lines 556-610 of the file) renders a value through cty's
  interface and is taken as it is.
\<close>

record ('ctx, 'val) hcl_lib =
  RangeOver :: "hcl_Range \<Rightarrow> hcl_Range \<Rightarrow> hcl_Range"
  Empty :: "hcl_Range \<Rightarrow> bool"
  Overlaps :: "hcl_Range \<Rightarrow> hcl_Range \<Rightarrow> bool"
  SliceBytes :: "hcl_Range \<Rightarrow> string \<Rightarrow> string"
  ScanLines :: "string \<Rightarrow> string \<Rightarrow> hcl_Range list"
  ContextString :: "string \<Rightarrow> string \<Rightarrow> int \<Rightarrow> string"
  TraverseAbs :: "'val Traversal \<Rightarrow> 'ctx \<Rightarrow> 'val \<times> ('ctx, 'val) hcl_Diagnostic list"
  IsKnown :: "'val \<Rightarrow> bool"
  IsDynamicPseudoType :: "'val \<Rightarrow> bool"
  IsPrimitiveType :: "'val \<Rightarrow> bool"
  FriendlyName :: "'val \<Rightarrow> string"
  compactValueStr :: "'val \<Rightarrow> string"

definition hclSeverity :: "hcl_DiagnosticSeverity \<Rightarrow> pb_Severity" where
  "hclSeverity s =
     (case s of
        DiagError \<Rightarrow> SEVERITY_ERROR
      | DiagWarning \<Rightarrow> SEVERITY_WARNING
      | DiagInvalid \<Rightarrow> SEVERITY_UNKNOWN)"

definition hclRangeToProtoRange :: "hcl_Range \<Rightarrow> pb_Range" where
  "hclRangeToProtoRange rng =
     \<lparr>Filename = hcl_Filename rng,
      Start = Some \<lparr>Line = hcl_Line (hcl_Start rng), Column = hcl_Column (hcl_Start rng),
                    Byte = hcl_Byte (hcl_Start rng)\<rparr>,
      End = Some \<lparr>Line = hcl_Line (hcl_End rng), Column = hcl_Column (hcl_End rng),
                  Byte = hcl_Byte (hcl_End rng)\<rparr>\<rparr>"

definition zeroPos :: hcl_Pos where
  "zeroPos = \<lparr>hcl_Line = 0, hcl_Column = 0, hcl_Byte = 0\<rparr>"

text \<open>\<open>r.End.Byte++; r.End.Column++\<close>\<close>

definition growEnd :: "hcl_Range \<Rightarrow> hcl_Range" where
  "growEnd r =
     r\<lparr>hcl_End := (hcl_End r)\<lparr>hcl_Byte := wrap64 (hcl_Byte (hcl_End r) + 1),
                                hcl_Column := wrap64 (hcl_Column (hcl_End r) + 1)\<rparr>\<rparr>"

definition traverserStr :: "('ctx, 'val) hcl_lib \<Rightarrow> 'val Traverser \<Rightarrow> string" where
  "traverserStr lib step =
     (case step of
        TraverseRoot name \<Rightarrow> name
      | TraverseAttr name \<Rightarrow> ''.'' @ name
      | TraverseIndex key \<Rightarrow>
          ''['' @ (if IsPrimitiveType lib key then compactValueStr lib key else ''...'') @ '']''
      | TraverseSplat \<Rightarrow> [])"

definition traversalStr :: "('ctx, 'val) hcl_lib \<Rightarrow> 'val Traversal \<Rightarrow> string" where
  "traversalStr lib traversal = concat (map (traverserStr lib) traversal)"

text \<open>The statement of an annotation: the \<open>switch\<close> of lines 279-288.\<close>

definition statementOf :: "('ctx, 'val) hcl_lib \<Rightarrow> 'val \<Rightarrow> string" where
  "statementOf lib val =
     (if \<not> IsKnown lib val then
        (if \<not> IsDynamicPseudoType lib val
         then ''is a '' @ FriendlyName lib val @ '', known only after apply''
         else ''will be known only after apply'')
      else ''is '' @ compactValueStr lib val)"

definition expressionValue :: "('ctx, 'val) hcl_lib \<Rightarrow> 'ctx \<Rightarrow> 'val Traversal \<Rightarrow> pb_ExpressionValue" where
  "expressionValue lib ctx traversal =
     \<lparr>Traversal = traversalStr lib traversal,
      Statement = statementOf lib (fst (TraverseAbs lib traversal ctx))\<rparr>"

text \<open>
  The inner loop of the annotation walk, for one traversal (lines 262-291): while the
  traversal is longer than one step, evaluate it; on an error drop the last step and go
  on; on a string seen before leave the loop (\<open>continue Traversals\<close>); otherwise record
  the value and go round again with the same traversal, which is then seen.
\<close>

function walkTraversal ::
  "('ctx, 'val) hcl_lib \<Rightarrow> 'ctx \<Rightarrow> 'val Traversal \<Rightarrow> pb_ExpressionValue list \<Rightarrow> string set
    \<Rightarrow> pb_ExpressionValue list \<times> string set" where
  "walkTraversal lib ctx traversal values seen =
     (if length traversal > 1 then
        (if HasErrors (snd (TraverseAbs lib traversal ctx))
         then walkTraversal lib ctx (butlast traversal) values seen
         else if traversalStr lib traversal \<in> seen then (values, seen)
         else walkTraversal lib ctx traversal
                (values @ [expressionValue lib ctx traversal])
                (insert (traversalStr lib traversal) seen))
      else (values, seen))"
  by pat_completeness auto
termination
proof (relation "measure (\<lambda>(lib, ctx, traversal, values, seen).
        2 * length traversal + (if traversalStr lib traversal \<in> seen then 0 else 1))",
       goal_cases)
  case 1
  show ?case by simp
next
  case (2 lib ctx traversal vals seen)
  then have "2 * length (butlast traversal) + 2 \<le> 2 * length traversal"
    by simp
  then show ?case by (simp del: length_butlast)
next
  case (3 lib ctx traversal vals seen)
  then show ?case by simp
qed

declare walkTraversal.simps [simp del]

text \<open>The outer loop over \<open>expr.Variables()\<close>.\<close>

fun walkTraversals ::
  "('ctx, 'val) hcl_lib \<Rightarrow> 'ctx \<Rightarrow> 'val Traversal list \<Rightarrow> pb_ExpressionValue list \<Rightarrow> string set
    \<Rightarrow> pb_ExpressionValue list \<times> string set" where
  "walkTraversals lib ctx [] values seen = (values, seen)"
| "walkTraversals lib ctx (traversal # vars) values seen =
     (case walkTraversal lib ctx traversal values seen of
        (values', seen') \<Rightarrow> walkTraversals lib ctx vars values' seen')"

text \<open>
  \<open>sort.Slice\<close> by the traversal string; the strings of the recorded values are distinct
  (each is recorded only when unseen), so the order of the result is fixed.
\<close>

definition expressionValues :: "('ctx, 'val) hcl_lib \<Rightarrow> 'ctx \<Rightarrow> 'val Traversal list \<Rightarrow> pb_ExpressionValue list" where
  "expressionValues lib ctx vars = sort_key Traversal (fst (walkTraversals lib ctx vars [] {}))"

text \<open>
  The scanner loop that builds the code of the snippet (lines 209-221): the state is
  \<open>codeStartByte\<close> and the text written so far.
\<close>

fun scanCode ::
  "('ctx, 'val) hcl_lib \<Rightarrow> string \<Rightarrow> hcl_Range \<Rightarrow> hcl_Range list \<Rightarrow> int \<times> string \<Rightarrow> int \<times> string" where
  "scanCode lib bytes snippetRange [] st = st"
| "scanCode lib bytes snippetRange (lineRange # rest) (codeStartByte, code) =
     (if Overlaps lib lineRange snippetRange
      then scanCode lib bytes snippetRange rest
             ((if codeStartByte = 0 \<and> length code = 0
               then hcl_Byte (hcl_Start lineRange) else codeStartByte),
              code @ SliceBytes lib lineRange bytes @ [CHR 0x0A])
      else scanCode lib bytes snippetRange rest (codeStartByte, code))"

definition TrimSuffix :: "string \<Rightarrow> string \<Rightarrow> string" where
  "TrimSuffix s suffix =
     (if length suffix \<le> length s \<and> drop (length s - length suffix) s = suffix
      then take (length s - length suffix) s else s)"

text \<open>The cap of lines 235-239 and 240-244, written twice in the source.\<close>

definition capOffset :: "int \<Rightarrow> string \<Rightarrow> int" where
  "capOffset x codeStr =
     (if x < 0 then 0 else if x > int (length codeStr) then int (length codeStr) else x)"

definition highlightOf :: "('ctx, 'val) hcl_lib \<Rightarrow> hcl_Range \<Rightarrow> hcl_Range" where
  "highlightOf lib subject =
     (let highlightRange =
            (if hcl_End subject = zeroPos then subject\<lparr>hcl_End := hcl_Start subject\<rparr>
             else subject)
      in if Empty lib highlightRange then growEnd highlightRange else highlightRange)"

definition snippetOf ::
  "('ctx, 'val) hcl_lib \<Rightarrow> hcl_Range \<Rightarrow> hcl_Range option \<Rightarrow> hcl_Range" where
  "snippetOf lib subject context =
     (let highlightRange =
            (if hcl_End subject = zeroPos then subject\<lparr>hcl_End := hcl_Start subject\<rparr>
             else subject);
          snippetRange = (case context of None \<Rightarrow> highlightRange | Some c \<Rightarrow> c);
          snippetRange' = RangeOver lib snippetRange highlightRange
      in if Empty lib snippetRange' then growEnd snippetRange' else snippetRange')"

text \<open>
  The snippet of a diagnostic whose subject names a file with bytes (lines 194-297).
  \<open>highlightRange\<close> and \<open>snippetRange\<close> are the ranges after lines 166-188.
\<close>

definition makeSnippet ::
  "('ctx, 'val) hcl_lib \<Rightarrow> string \<Rightarrow> hcl_Range \<Rightarrow> hcl_Range
    \<Rightarrow> ('ctx, 'val) hcl_Diagnostic \<Rightarrow> pb_Snippet" where
  "makeSnippet lib bytes highlightRange snippetRange diag =
     (let offset = hcl_Byte (hcl_Start highlightRange);
          contextStr = ContextString lib bytes (hcl_Filename highlightRange) (wrap64 (offset - 1));
          (codeStartByte, code) =
             scanCode lib bytes snippetRange
               (ScanLines lib bytes (hcl_Filename highlightRange)) (0, []);
          codeStr = TrimSuffix code [CHR 0x0A];
          start = wrap64 (hcl_Byte (hcl_Start highlightRange) - codeStartByte);
          end = wrap64 (start +
                  wrap64 (hcl_Byte (hcl_End highlightRange) - hcl_Byte (hcl_Start highlightRange)))
      in \<lparr>Context = contextStr,
          Code = codeStr,
          StartLine = hcl_Line (hcl_Start snippetRange),
          HighlightStartOffset = capOffset start codeStr,
          HighlightEndOffset = capOffset end codeStr,
          Values =
            (case Expression diag of
               None \<Rightarrow> []
             | Some vars \<Rightarrow> expressionValues lib (hcl_EvalContext diag) vars)\<rparr>)"

text \<open>The loop body of \<open>FromHCL\<close>: one diagnostic.\<close>

definition fromHCLDiag ::
  "('ctx, 'val) hcl_lib \<Rightarrow> (string \<rightharpoonup> hcl_File) \<Rightarrow> ('ctx, 'val) hcl_Diagnostic \<Rightarrow> pb_Diagnostic" where
  "fromHCLDiag lib files diag =
     (let pbDiag = \<lparr>Severity = hclSeverity (hcl_Severity diag),
                    Summary = hcl_Summary diag, Detail = hcl_Detail diag,
                    Range = None, Snippet = None\<rparr>
      in case Subject diag of
           None \<Rightarrow> pbDiag
         | Some subject \<Rightarrow>
             (let highlightRange = highlightOf lib subject;
                  snippetRange = snippetOf lib subject (hcl_Context diag);
                  pbDiag' = pbDiag\<lparr>Range := Some (hclRangeToProtoRange highlightRange)\<rparr>
              in case files (hcl_Filename subject) of
                   None \<Rightarrow> pbDiag'
                 | Some file \<Rightarrow>
                     (case Bytes file of
                        None \<Rightarrow> pbDiag'
                      | Some bytes \<Rightarrow>
                          pbDiag'\<lparr>Snippet :=
                            Some (makeSnippet lib bytes highlightRange snippetRange diag)\<rparr>)))"

definition FromHCL ::
  "('ctx, 'val) hcl_lib \<Rightarrow> (string \<rightharpoonup> hcl_File) \<Rightarrow> ('ctx, 'val) hcl_Diagnostic list
    \<Rightarrow> pb_Diagnostic list" where
  "FromHCL lib files diags =
     (if length diags < 1 then [] else map (fromHCLDiag lib files) diags)"

subsection \<open>What the annotation walk records\<close>

text \<open>
  The prefixes of a traversal that the walk can evaluate are those of length two and
  more, the longest first; \<open>longestGoodPrefix\<close> is the first of them that evaluates
  without an error.
\<close>

definition goodPrefix :: "('ctx, 'val) hcl_lib \<Rightarrow> 'ctx \<Rightarrow> 'val Traversal \<Rightarrow> bool" where
  "goodPrefix lib ctx p = (\<not> HasErrors (snd (TraverseAbs lib p ctx)))"

definition longestGoodPrefix ::
  "('ctx, 'val) hcl_lib \<Rightarrow> 'ctx \<Rightarrow> 'val Traversal \<Rightarrow> 'val Traversal option" where
  "longestGoodPrefix lib ctx traversal =
     find (goodPrefix lib ctx)
       (map (\<lambda>n. take n traversal) (rev [2 ..< Suc (length traversal)]))"

subsection \<open>Well-formed subjects\<close>

text \<open>
  A byte offset that indexes a file: not negative, and far from the ends of the 64-bit
  range. A diagnostic's subject is ordered when its end byte is not before its start
  byte (or the end was left unset), its offsets index a file, and so do the starts of
  the lines the scanner yields for the file of the subject.
\<close>

definition offsetOK :: "int \<Rightarrow> bool" where
  "offsetOK x = (0 \<le> x \<and> x < 2 ^ 62)"

definition orderedSubject ::
  "('ctx, 'val) hcl_lib \<Rightarrow> (string \<rightharpoonup> hcl_File) \<Rightarrow> ('ctx, 'val) hcl_Diagnostic \<Rightarrow> bool" where
  "orderedSubject lib files diag =
     (case Subject diag of
        None \<Rightarrow> False
      | Some r \<Rightarrow>
          offsetOK (hcl_Byte (hcl_Start r)) \<and> offsetOK (hcl_Byte (hcl_End r)) \<and>
          (hcl_Byte (hcl_Start r) \<le> hcl_Byte (hcl_End r) \<or> hcl_End r = zeroPos) \<and>
          (case files (hcl_Filename r) of
             None \<Rightarrow> True
           | Some file \<Rightarrow>
               (case Bytes file of
                  None \<Rightarrow> True
                | Some bytes \<Rightarrow>
                    list_all (\<lambda>l. offsetOK (hcl_Byte (hcl_Start l)))
                      (ScanLines lib bytes (hcl_Filename r)))))"

subsection \<open>An instance of the library, for concrete inputs\<close>

text \<open>
  The range functions as the parser library defines them, and a line scanner for text
  whose lines end in a line feed and whose characters are one column wide. The
  evaluation context is the list of the traversals that evaluate without an error, each
  to the value \<open>known\<close>.
\<close>

definition refEmpty :: "hcl_Range \<Rightarrow> bool" where
  "refEmpty r = (hcl_Byte (hcl_Start r) = hcl_Byte (hcl_End r))"

definition refRangeOver :: "hcl_Range \<Rightarrow> hcl_Range \<Rightarrow> hcl_Range" where
  "refRangeOver a b =
     (if refEmpty a then b
      else if refEmpty b then a
      else \<lparr>hcl_Filename = hcl_Filename a,
            hcl_Start = (if hcl_Byte (hcl_Start a) < hcl_Byte (hcl_Start b)
                         then hcl_Start a else hcl_Start b),
            hcl_End = (if hcl_Byte (hcl_End a) > hcl_Byte (hcl_End b)
                       then hcl_End a else hcl_End b)\<rparr>)"

definition refContainsOffset :: "hcl_Range \<Rightarrow> int \<Rightarrow> bool" where
  "refContainsOffset r offset = (offset \<ge> hcl_Byte (hcl_Start r) \<and> offset < hcl_Byte (hcl_End r))"

definition refOverlaps :: "hcl_Range \<Rightarrow> hcl_Range \<Rightarrow> bool" where
  "refOverlaps r other =
     (if hcl_Filename r \<noteq> hcl_Filename other then False
      else if refEmpty r \<or> refEmpty other then False
      else refContainsOffset r (hcl_Byte (hcl_Start other)) \<or>
           refContainsOffset r (hcl_Byte (hcl_End other)) \<or>
           refContainsOffset other (hcl_Byte (hcl_Start r)) \<or>
           refContainsOffset other (hcl_Byte (hcl_End r)))"

definition refSliceBytes :: "hcl_Range \<Rightarrow> string \<Rightarrow> string" where
  "refSliceBytes r b =
     (let start = capOffset (hcl_Byte (hcl_Start r)) b;
          end = capOffset (hcl_Byte (hcl_End r)) b;
          end' = (if end < start then start else end)
      in take (nat (end' - start)) (drop (nat start) b))"

fun refScanLinesFrom :: "string \<Rightarrow> string \<Rightarrow> int \<Rightarrow> int \<Rightarrow> int \<Rightarrow> hcl_Range list" where
  "refScanLinesFrom filename [] line start cur =
     (if cur = start then []
      else [\<lparr>hcl_Filename = filename,
             hcl_Start = \<lparr>hcl_Line = line, hcl_Column = 1, hcl_Byte = start\<rparr>,
             hcl_End = \<lparr>hcl_Line = line, hcl_Column = 1 + (cur - start), hcl_Byte = cur\<rparr>\<rparr>])"
| "refScanLinesFrom filename (c # cs) line start cur =
     (if c = CHR 0x0A
      then \<lparr>hcl_Filename = filename,
            hcl_Start = \<lparr>hcl_Line = line, hcl_Column = 1, hcl_Byte = start\<rparr>,
            hcl_End = \<lparr>hcl_Line = line, hcl_Column = 1 + (cur - start), hcl_Byte = cur\<rparr>\<rparr>
           # refScanLinesFrom filename cs (line + 1) (cur + 1) (cur + 1)
      else refScanLinesFrom filename cs line start (cur + 1))"

definition refScanLines :: "string \<Rightarrow> string \<Rightarrow> hcl_Range list" where
  "refScanLines bytes filename = refScanLinesFrom filename bytes 1 0 0"

definition refTraverseAbs ::
  "string Traversal \<Rightarrow> string Traversal list
    \<Rightarrow> string \<times> (string Traversal list, string) hcl_Diagnostic list" where
  "refTraverseAbs traversal ctx =
     (if traversal \<in> set ctx then (''known'', [])
      else ([], [\<lparr>hcl_Severity = DiagError, hcl_Summary = ''Unsupported attribute'',
                  hcl_Detail = [], Subject = None, hcl_Context = None,
                  Expression = None, hcl_EvalContext = ctx\<rparr>]))"

definition refLib :: "(string Traversal list, string) hcl_lib" where
  "refLib =
     \<lparr>RangeOver = refRangeOver, Empty = refEmpty, Overlaps = refOverlaps,
      SliceBytes = refSliceBytes, ScanLines = refScanLines,
      ContextString = (\<lambda>src filename offset. []),
      TraverseAbs = refTraverseAbs,
      IsKnown = (\<lambda>v. True), IsDynamicPseudoType = (\<lambda>v. False),
      IsPrimitiveType = (\<lambda>v. True), FriendlyName = (\<lambda>v. ''string''),
      compactValueStr = (\<lambda>v. v)\<rparr>"

text \<open>
  A file of one line, and two diagnostics on it: one whose subject covers \<open>world\<close>
  (bytes 6 to 11), one whose subject ends (byte 2) before it starts (byte 5).
\<close>

definition helloFiles :: "string \<rightharpoonup> hcl_File" where
  "helloFiles = [''main.hcl'' \<mapsto> \<lparr>Bytes = Some ''hello world''\<rparr>]"

definition worldRange :: hcl_Range where
  "worldRange =
     \<lparr>hcl_Filename = ''main.hcl'',
      hcl_Start = \<lparr>hcl_Line = 1, hcl_Column = 7, hcl_Byte = 6\<rparr>,
      hcl_End = \<lparr>hcl_Line = 1, hcl_Column = 12, hcl_Byte = 11\<rparr>\<rparr>"

definition backwardsRange :: hcl_Range where
  "backwardsRange =
     \<lparr>hcl_Filename = ''main.hcl'',
      hcl_Start = \<lparr>hcl_Line = 1, hcl_Column = 6, hcl_Byte = 5\<rparr>,
      hcl_End = \<lparr>hcl_Line = 1, hcl_Column = 3, hcl_Byte = 2\<rparr>\<rparr>"

definition diagOn :: "hcl_Range \<Rightarrow> (string Traversal list, string) hcl_Diagnostic" where
  "diagOn r =
     \<lparr>hcl_Severity = DiagError, hcl_Summary = ''Invalid reference'', hcl_Detail = [],
      Subject = Some r, hcl_Context = None, Expression = None, hcl_EvalContext = []\<rparr>"

text \<open>The snippets \<open>FromHCL\<close> makes for the two diagnostics.\<close>

definition worldSnippet :: pb_Snippet where
  "worldSnippet =
     \<lparr>Context = [], Code = ''hello world'', StartLine = 1,
      HighlightStartOffset = 6, HighlightEndOffset = 11, Values = []\<rparr>"

definition backwardsSnippet :: pb_Snippet where
  "backwardsSnippet =
     \<lparr>Context = [], Code = ''hello world'', StartLine = 1,
      HighlightStartOffset = 5, HighlightEndOffset = 2, Values = []\<rparr>"

section \<open>Sample framer (internal/flightplan/sample.go)\<close>

text \<open>
  Of a \<open>SampleSubset\<close> only \<open>Name\<close> is read here, of the filter message only the names
  of its two lists of subset ids (\<open>GetSubsets\<close>, \<open>GetExcludeSubsets\<close>; \<open>None\<close> is the
  nil list), and of a subset frame only \<open>SampleName\<close> is written. The other fields of
  these types live in the extension of the records.
\<close>

record SampleSubset =
  subset_Name :: string

record Sample =
  sample_Name :: string
  Subsets :: "SampleSubset list"

record Sample_Filter =
  filter_Subsets :: "string list option"
  filter_ExcludeSubsets :: "string list option"

record SampleSubsetFrame =
  SampleName :: string

record DecodeResponse =
  Diagnostics :: "pb_Diagnostic list"

record SampleFrame =
  frame_Sample :: Sample
  frame_Filter :: "Sample_Filter option"
  SubsetFrames :: "string \<rightharpoonup> SampleSubsetFrame"

subsection \<open>Slices over shared arrays\<close>

text \<open>
  \<open>filterSubsets\<close> works on Go slices, and a slice shares its backing array with the
  slice it was cut from. Two arrays exist during a call: the backing array of
  \<open>s.Subsets\<close> and the one of the fresh \<open>newSubs\<close>. The store maps each to its
  contents; a slice is an array and a length (every slice here starts at index 0).
\<close>

datatype array = SubsetsArray | NewSubsArray

type_synonym slice = "array \<times> nat"

type_synonym store = "array \<Rightarrow> SampleSubset list"

definition elems :: "store \<Rightarrow> slice \<Rightarrow> SampleSubset list" where
  "elems h sl = take (snd sl) (h (fst sl))"

text \<open>
  The inner loops (lines 155-160 and 167-172): the first index whose subset has the
  name, where the loop breaks; \<open>None\<close> when the loop runs out.
\<close>

primrec findIndex :: "string \<Rightarrow> SampleSubset list \<Rightarrow> nat option" where
  "findIndex name [] = None"
| "findIndex name (x # xs) =
     (if name = subset_Name x then Some 0 else map_option Suc (findIndex name xs))"

text \<open>
  \<open>newSubs = append(newSubs, subsets[j])\<close>: \<open>newSubs\<close> is the only slice on its array,
  so the model writes the element after the slice's end, whether Go reallocates or not.
\<close>

definition appendNew :: "store \<Rightarrow> nat \<Rightarrow> SampleSubset \<Rightarrow> store \<times> nat" where
  "appendNew h n x = (h(NewSubsArray := take n (h NewSubsArray) @ [x]), Suc n)"

text \<open>
  \<open>subsets = append(subsets[:j], subsets[j+1:]...)\<close>: the capacity of \<open>subsets[:j]\<close>
  holds the \<open>n - j - 1\<close> elements appended, so Go copies them down inside the array of
  \<open>subsets\<close>. The array keeps its length; the slice is one shorter.
\<close>

definition deleteAt :: "store \<Rightarrow> slice \<Rightarrow> nat \<Rightarrow> store \<times> slice" where
  "deleteAt h sl j =
     (let a = fst sl; n = snd sl
      in (h(a := take j (h a) @ drop (Suc j) (take n (h a)) @ drop (n - 1) (h a)),
          (a, n - 1)))"

fun includeLoop :: "string list \<Rightarrow> slice \<Rightarrow> store \<Rightarrow> nat \<Rightarrow> store \<times> nat" where
  "includeLoop [] subsets h n = (h, n)"
| "includeLoop (incl # rest) subsets h n =
     (case findIndex incl (elems h subsets) of
        None \<Rightarrow> includeLoop rest subsets h n
      | Some j \<Rightarrow>
          (case appendNew h n (elems h subsets ! j) of
             (h', n') \<Rightarrow> includeLoop rest subsets h' n'))"

fun excludeLoop :: "string list \<Rightarrow> slice \<Rightarrow> store \<Rightarrow> store \<times> slice" where
  "excludeLoop [] subsets h = (h, subsets)"
| "excludeLoop (excl # rest) subsets h =
     (case findIndex excl (elems h subsets) of
        None \<Rightarrow> excludeLoop rest subsets h
      | Some j \<Rightarrow>
          (case deleteAt h subsets j of
             (h', subsets') \<Rightarrow> excludeLoop rest subsets' h'))"

text \<open>
  \<open>filterSubsets\<close> returns the slice it computed; the model returns its elements, and
  the sample as the call leaves it (its \<open>Subsets\<close> slice read from the store again).
\<close>

definition filterSubsets ::
  "Sample option \<Rightarrow> Sample_Filter option \<Rightarrow> SampleSubset list \<times> Sample option" where
  "filterSubsets s flt =
     (case s of
        None \<Rightarrow> ([], None)
      | Some smp \<Rightarrow>
          if length (Subsets smp) < 1 then ([], s)
          else
            (let h0 = (\<lambda>a. case a of SubsetsArray \<Rightarrow> Subsets smp | NewSubsArray \<Rightarrow> []);
                 subsets0 = (SubsetsArray, length (Subsets smp))
             in case flt of
                  None \<Rightarrow> (elems h0 subsets0, s)
                | Some f \<Rightarrow>
                    (let (h1, subsets1) =
                           (case filter_Subsets f of
                              None \<Rightarrow> (h0, subsets0)
                            | Some inclSubs \<Rightarrow>
                                (case includeLoop inclSubs subsets0 h0 0 of
                                   (h, n) \<Rightarrow> (h, (NewSubsArray, n))));
                         (h2, subsets2) =
                           (case filter_ExcludeSubsets f of
                              None \<Rightarrow> (h1, subsets1)
                            | Some exclSubs \<Rightarrow> excludeLoop exclSubs subsets1 h1)
                     in (elems h2 subsets2,
                         Some (smp\<lparr>Subsets := take (length (Subsets smp)) (h2 SubsetsArray)\<rparr>)))))"

subsection \<open>The reduction in the spec's words\<close>

text \<open>
  The include step keeps, for each name of the include list in the order of that list,
  the first subset of the sample with that name; the exclude step removes, for each
  name of the exclude list in turn, the first subset left with that name. A nil list
  leaves the subsets as they are.
\<close>

definition includeReduce :: "string list option \<Rightarrow> SampleSubset list \<Rightarrow> SampleSubset list" where
  "includeReduce incl subs =
     (case incl of
        None \<Rightarrow> subs
      | Some names \<Rightarrow> List.map_filter (\<lambda>name. find (\<lambda>ss. name = subset_Name ss) subs) names)"

primrec removeFirst :: "string \<Rightarrow> SampleSubset list \<Rightarrow> SampleSubset list" where
  "removeFirst name [] = []"
| "removeFirst name (x # xs) = (if name = subset_Name x then xs else x # removeFirst name xs)"

definition excludeReduce :: "string list option \<Rightarrow> SampleSubset list \<Rightarrow> SampleSubset list" where
  "excludeReduce excl subs =
     (case excl of
        None \<Rightarrow> subs
      | Some names \<Rightarrow> foldl (\<lambda>xs name. removeFirst name xs) subs names)"

subsection \<open>Frame\<close>

text \<open>
  \<open>SampleSubset.Frame\<close> is not among the sources: the model takes it as the parameter
  \<open>subsetFrame\<close>, from a subset to the frame and the response it returns (context and
  workspace are fixed during a call). \<open>filterString\<close> is the filter's \<open>String()\<close>.
  The loop of lines 125-140 returns at the first response that is not nil, and skips a
  nil frame.
\<close>

fun frameLoop ::
  "(SampleSubset \<Rightarrow> SampleSubsetFrame option \<times> DecodeResponse option) \<Rightarrow> string
    \<Rightarrow> SampleSubset list \<Rightarrow> (string \<rightharpoonup> SampleSubsetFrame)
    \<Rightarrow> DecodeResponse + (string \<rightharpoonup> SampleSubsetFrame)" where
  "frameLoop subsetFrame name [] frames = Inr frames"
| "frameLoop subsetFrame name (ss # rest) frames =
     (case subsetFrame ss of
        (frame, Some err) \<Rightarrow> Inl err
      | (None, None) \<Rightarrow> frameLoop subsetFrame name rest frames
      | (Some frame, None) \<Rightarrow>
          frameLoop subsetFrame name rest
            (frames(subset_Name ss \<mapsto> frame\<lparr>SampleName := name\<rparr>)))"

definition noSubsetsMatched :: "string \<Rightarrow> go_error" where
  "noSubsetsMatched filterStr = GoError (''no subsets matched the given filter: '' @ filterStr)"

definition Frame ::
  "(Sample_Filter option \<Rightarrow> string)
    \<Rightarrow> (SampleSubset \<Rightarrow> SampleSubsetFrame option \<times> DecodeResponse option)
    \<Rightarrow> Sample option \<Rightarrow> Sample_Filter option
    \<Rightarrow> (SampleFrame option \<times> DecodeResponse option) \<times> Sample option" where
  "Frame filterString subsetFrame s flt =
     (case filterSubsets s flt of
        (subsets, s') \<Rightarrow>
          if length subsets < 1
          then ((None, Some \<lparr>Diagnostics = FromErr (Some (noSubsetsMatched (filterString flt)))\<rparr>), s')
          else
            (case s' of
               None \<Rightarrow> ((None, None), s')
             | Some smp \<Rightarrow>
                 (case frameLoop subsetFrame (sample_Name smp) subsets Map.empty of
                    Inl err \<Rightarrow> ((None, Some err), s')
                  | Inr frames \<Rightarrow>
                      ((Some \<lparr>frame_Sample = smp, frame_Filter = flt,
                               SubsetFrames = frames\<rparr>, None), s'))))"

subsection \<open>A sample with the subsets a, b and c\<close>

definition subsetNamed :: "string \<Rightarrow> SampleSubset" where
  "subsetNamed name = \<lparr>subset_Name = name\<rparr>"

definition sampleABC :: Sample where
  "sampleABC =
     \<lparr>sample_Name = ''smoke'',
      Subsets = [subsetNamed ''a'', subsetNamed ''b'', subsetNamed ''c'']\<rparr>"

text \<open>
  Filters over it, and three behaviours of \<open>SampleSubset.Frame\<close>: every subset has a
  frame; the subset b has a nil frame and no error; the subset b returns an error.
\<close>

definition onlySubsets :: "string list \<Rightarrow> Sample_Filter" where
  "onlySubsets names = \<lparr>filter_Subsets = Some names, filter_ExcludeSubsets = None\<rparr>"

definition exceptSubsets :: "string list \<Rightarrow> Sample_Filter" where
  "exceptSubsets names = \<lparr>filter_Subsets = None, filter_ExcludeSubsets = Some names\<rparr>"

definition filterText :: "Sample_Filter option \<Rightarrow> string" where
  "filterText flt = (case flt of None \<Rightarrow> ''<nil>'' | Some f \<Rightarrow> ''subsets'')"

definition subsetFailed :: DecodeResponse where
  "subsetFailed = \<lparr>Diagnostics = FromErr (Some (GoError ''no scenarios matched the subset''))\<rparr>"

definition frameNilForB :: "SampleSubset \<Rightarrow> SampleSubsetFrame option \<times> DecodeResponse option" where
  "frameNilForB ss =
     (if subset_Name ss = ''b'' then (None, None) else (Some \<lparr>SampleName = []\<rparr>, None))"

definition frameErrForB :: "SampleSubset \<Rightarrow> SampleSubsetFrame option \<times> DecodeResponse option" where
  "frameErrForB ss =
     (if subset_Name ss = ''b'' then (None, Some subsetFailed)
      else (Some \<lparr>SampleName = []\<rparr>, None))"

section \<open>Scenario decoder (the source file of \<open>ScenarioDecoder\<close>)\<close>

subsection \<open>Data\<close>

text \<open>
  Modelled from the spec: \<open>Element\<close>, \<open>Vector\<close> and \<open>Matrix\<close> (their source file is not
  among the sources). An element is a key and a value, a vector an ordered list of
  elements, a matrix an ordered list of vectors.
\<close>

record Element =
  Key :: string
  Val :: string

type_synonym Vector = "Element list"

record Matrix =
  Vectors :: "Vector list"

text \<open>
  Modelled from the spec: the structured form of a scenario filter (a name, an include
  set and an exclude set), of which the decoder reads the name.
\<close>

record ScenarioFilter =
  filter_Name :: string
  filter_Include :: "Element list"
  filter_Exclude :: "Element list"

text \<open>
  Modelled from the spec: a \<open>Scenario\<close> has a name, its variants (the matrix vector it
  was expanded for, if any) and its steps, here their names.
\<close>

record Scenario =
  scenario_Name :: string
  Variants :: "Vector option"
  Steps :: "string list"

text \<open>
  Modelled from the spec: the decode targets, an integer type whose constants follow
  the ladder of the spec, from \<open>Unset\<close> (0) to \<open>All\<close> (5).
\<close>

type_synonym DecodeTarget = int

definition DecodeTargetUnset :: DecodeTarget where
  "DecodeTargetUnset = 0"

definition DecodeTargetScenariosNamesNoVariants :: DecodeTarget where
  "DecodeTargetScenariosNamesNoVariants = 1"

definition DecodeTargetScenariosMatrixOnly :: DecodeTarget where
  "DecodeTargetScenariosMatrixOnly = 2"

definition DecodeTargetScenariosNamesExpandVariants :: DecodeTarget where
  "DecodeTargetScenariosNamesExpandVariants = 3"

definition DecodeTargetScenariosComplete :: DecodeTarget where
  "DecodeTargetScenariosComplete = 4"

definition DecodeTargetAll :: DecodeTarget where
  "DecodeTargetAll = 5"

text \<open>
  An evaluation context of the parser library: its variables and its parent (its
  functions are never set by this code and are left out). A context is not changed
  after it is built, so a pointer to one is modelled by its value; the nil pointer is
  \<open>None\<close>. \<open>NewChild\<close> works on the nil pointer too.
\<close>

datatype 'v hcl_EvalContext =
  Ctx (Variables: "(string \<times> 'v) list") (parent: "'v hcl_EvalContext option")

definition NewChild :: "'v hcl_EvalContext option \<Rightarrow> 'v hcl_EvalContext" where
  "NewChild ctx = Ctx [] ctx"

definition setVariables :: "(string \<times> 'v) list \<Rightarrow> 'v hcl_EvalContext \<Rightarrow> 'v hcl_EvalContext" where
  "setVariables vars ctx = Ctx vars (parent ctx)"

text \<open>A block of the parser library: its type, its labels, its body (not read here) and its ranges.\<close>

record hcl_Block =
  block_Type :: string
  Labels :: "string list"
  Body :: string
  DefRange :: hcl_Range
  TypeRange :: hcl_Range

type_synonym hcl_Diagnostics = "(unit, unit) hcl_Diagnostic list"

record 'v ScenarioDecoder =
  EvalContext :: "'v hcl_EvalContext option"
  DecodeTarget :: DecodeTarget
  ScenarioFilter :: "ScenarioFilter option"

record DecodedScenarioBlock =
  Name :: string
  Block :: hcl_Block
  block_DecodeTarget :: DecodeTarget
  Matrix :: "Matrix option"
  Scenarios :: "Scenario list"
  block_Diagnostics :: hcl_Diagnostics

text \<open>
  The functions of the package that the decoder calls and that are not among the
  sources are parameters of the model: \<open>NewScenario()\<close>, \<open>Vector.CtyVal\<close>,
  \<open>Scenario.decode\<close> (which returns the scenario as it leaves it, and the diagnostics),
  \<open>decodeMatrix\<close>, \<open>Matrix.Filter\<close>, \<open>Scenario.String\<close> and
  \<open>verifyBlockLabelsAreValidIdentifiers\<close>.
\<close>

record 'v flightplan =
  NewScenario :: Scenario
  CtyVal :: "Vector \<Rightarrow> 'v"
  scenario_decode ::
    "Scenario \<Rightarrow> hcl_Block \<Rightarrow> 'v hcl_EvalContext \<Rightarrow> DecodeTarget \<Rightarrow> Scenario \<times> hcl_Diagnostics"
  decodeMatrix :: "'v hcl_EvalContext option \<Rightarrow> hcl_Block \<Rightarrow> Matrix option \<times> hcl_Diagnostics"
  matrix_Filter :: "Matrix \<Rightarrow> ScenarioFilter \<Rightarrow> Matrix option"
  scenario_String :: "Scenario \<Rightarrow> string"
  verifyBlockLabelsAreValidIdentifiers :: "hcl_Block \<Rightarrow> hcl_Diagnostics"

subsection \<open>decodeScenario\<close>

text \<open>
  The method has a pointer receiver: it returns the decoder as the call leaves it,
  beside its three results. For a vector that is not nil it builds \<open>matrixCtx\<close> and
  assigns it to \<open>d.EvalContext\<close> (line 560).
\<close>

definition matrixCtx :: "'v flightplan \<Rightarrow> 'v ScenarioDecoder \<Rightarrow> Vector \<Rightarrow> 'v hcl_EvalContext" where
  "matrixCtx fp d vec =
     setVariables [(''matrix'', CtyVal fp vec)] (NewChild (EvalContext d))"

definition decodeScenario ::
  "'v flightplan \<Rightarrow> 'v ScenarioDecoder \<Rightarrow> Vector option \<Rightarrow> hcl_Block
    \<Rightarrow> (bool \<times> Scenario \<times> hcl_Diagnostics) \<times> 'v ScenarioDecoder" where
  "decodeScenario fp d vec block =
     (let scenario = NewScenario fp;
          (scenario1, d1) =
            (case vec of
               None \<Rightarrow> (scenario, d)
             | Some v \<Rightarrow>
                 (scenario\<lparr>Variants := Some v\<rparr>,
                  d\<lparr>EvalContext := Some (matrixCtx fp d v)\<rparr>));
          (scenario2, diags) =
            scenario_decode fp scenario1 block (NewChild (EvalContext d1)) (DecodeTarget d1)
      in ((\<not> HasErrors diags, scenario2, diags), d1))"

subsection \<open>decodeScenariosSerial\<close>

text \<open>One call of \<open>decodeScenario\<close> and what the serial loop does with its results.\<close>

definition decodeInto ::
  "'v flightplan \<Rightarrow> Vector option \<Rightarrow> DecodedScenarioBlock \<times> 'v ScenarioDecoder
    \<Rightarrow> DecodedScenarioBlock \<times> 'v ScenarioDecoder" where
  "decodeInto fp vec st =
     (case st of
        (sb, d) \<Rightarrow>
          (case decodeScenario fp d vec (Block sb) of
             ((keep, scenario, diags), d') \<Rightarrow>
               (sb\<lparr>block_Diagnostics := block_Diagnostics sb @ diags,
                   Scenarios := (if keep then Scenarios sb @ [scenario] else Scenarios sb)\<rparr>,
                d')))"

fun serialLoop ::
  "'v flightplan \<Rightarrow> Vector list \<Rightarrow> DecodedScenarioBlock \<times> 'v ScenarioDecoder
    \<Rightarrow> DecodedScenarioBlock \<times> 'v ScenarioDecoder" where
  "serialLoop fp [] st = st"
| "serialLoop fp (vec # vecs) st = serialLoop fp vecs (decodeInto fp (Some vec) st)"

definition noVectors :: "Matrix option \<Rightarrow> bool" where
  "noVectors m = (case m of None \<Rightarrow> True | Some mx \<Rightarrow> length (Vectors mx) < 1)"

definition vectorsOf :: "Matrix option \<Rightarrow> Vector list" where
  "vectorsOf m = (case m of None \<Rightarrow> [] | Some mx \<Rightarrow> Vectors mx)"

definition decodeScenariosSerial ::
  "'v flightplan \<Rightarrow> 'v ScenarioDecoder \<Rightarrow> DecodedScenarioBlock
    \<Rightarrow> DecodedScenarioBlock \<times> 'v ScenarioDecoder" where
  "decodeScenariosSerial fp d sb =
     (if noVectors (Matrix sb) then decodeInto fp None (sb, d)
      else serialLoop fp (vectorsOf (Matrix sb)) (sb, d))"

subsection \<open>decodeScenariosConcurrent\<close>

text \<open>
  One goroutine per vector runs \<open>decodeScenario\<close> on the shared decoder and sends its
  results to the collector. The model is an interleaving of the goroutines' steps, a
  step being one access to shared state: reading \<open>d.EvalContext\<close> for \<open>matrixCtx\<close>
  (line 556), assigning \<open>d.EvalContext\<close> (560), reading it again for the decode (563),
  sending the diagnostics (634) and sending the scenario when it is kept (636). The
  channels are unbuffered, so the collector takes a message when it is sent: \<open>collected_diags\<close>
  and \<open>collected_scenarios\<close> below are the collector's local \<open>diags\<close> and
  \<open>scenarios\<close>.
\<close>

datatype 'v worker =
    Started Vector
  | HasMatrixCtx Scenario "'v hcl_EvalContext"
  | Assigned Scenario
  | Decoded bool Scenario hcl_Diagnostics
  | SentDiags bool Scenario
  | Finished

record 'v fanout =
  fan_decoder :: "'v ScenarioDecoder"
  fan_workers :: "'v worker list"
  collected_diags :: hcl_Diagnostics
  collected_scenarios :: "Scenario list"

definition workerStep ::
  "'v flightplan \<Rightarrow> hcl_Block \<Rightarrow> nat \<Rightarrow> 'v fanout \<Rightarrow> 'v fanout" where
  "workerStep fp block i st =
     (if i < length (fan_workers st) then
        (case fan_workers st ! i of
           Started vec \<Rightarrow>
             st\<lparr>fan_workers := (fan_workers st)[i :=
                  HasMatrixCtx ((NewScenario fp)\<lparr>Variants := Some vec\<rparr>)
                               (matrixCtx fp (fan_decoder st) vec)]\<rparr>
         | HasMatrixCtx scenario ctx \<Rightarrow>
             st\<lparr>fan_decoder := (fan_decoder st)\<lparr>EvalContext := Some ctx\<rparr>,
                fan_workers := (fan_workers st)[i := Assigned scenario]\<rparr>
         | Assigned scenario \<Rightarrow>
             (case scenario_decode fp scenario block
                     (NewChild (EvalContext (fan_decoder st))) (DecodeTarget (fan_decoder st)) of
                (scenario', ds) \<Rightarrow>
                  st\<lparr>fan_workers := (fan_workers st)[i := Decoded (\<not> HasErrors ds) scenario' ds]\<rparr>)
         | Decoded keep scenario ds \<Rightarrow>
             st\<lparr>collected_diags := collected_diags st @ ds,
                fan_workers := (fan_workers st)[i := SentDiags keep scenario]\<rparr>
         | SentDiags keep scenario \<Rightarrow>
             st\<lparr>collected_scenarios := (if keep then collected_scenarios st @ [scenario] else collected_scenarios st),
                fan_workers := (fan_workers st)[i := Finished]\<rparr>
         | Finished \<Rightarrow> st)
      else st)"

text \<open>
  A schedule is the list of the goroutines' turns. \<open>wg.Wait()\<close> returns when every
  goroutine has finished: after the schedule, each goroutine not yet finished runs to
  its end (five steps at most), in the order of the vectors.
\<close>

definition runSchedule ::
  "'v flightplan \<Rightarrow> hcl_Block \<Rightarrow> nat list \<Rightarrow> 'v fanout \<Rightarrow> 'v fanout" where
  "runSchedule fp block sched st = foldl (\<lambda>s i. workerStep fp block i s) st sched"

definition toTheEnd :: "nat \<Rightarrow> nat list" where
  "toTheEnd n = concat (map (replicate 5) [0 ..< n])"

definition decodeScenariosConcurrent ::
  "'v flightplan \<Rightarrow> nat list \<Rightarrow> 'v ScenarioDecoder \<Rightarrow> DecodedScenarioBlock
    \<Rightarrow> DecodedScenarioBlock \<times> 'v ScenarioDecoder" where
  "decodeScenariosConcurrent fp sched d sb =
     (if noVectors (Matrix sb) then decodeScenariosSerial fp d sb
      else
        (let vecs = vectorsOf (Matrix sb);
             st = runSchedule fp (Block sb) (sched @ toTheEnd (length vecs))
                    \<lparr>fan_decoder = d, fan_workers = map Started vecs, collected_diags = [], collected_scenarios = []\<rparr>
         in (sb\<lparr>Scenarios := Scenarios sb @ collected_scenarios st\<rparr>, fan_decoder st)))"

subsection \<open>DecodeScenarioBlocks\<close>

text \<open>
  The choice of lines 478-506 between the two ways to decode a block. The detail of the
  diagnostic of the \<open>default\<close> case prints the target; the model leaves the number out.
\<close>

datatype DecodeMode = Serial | Concurrent | UnknownMode

definition chooseDecode :: "DecodeTarget \<Rightarrow> Matrix option \<Rightarrow> DecodeMode" where
  "chooseDecode target m =
     (if m = None \<or> (m \<noteq> None \<or> length (vectorsOf m) < 1) then Serial
      else if target = DecodeTargetScenariosNamesExpandVariants then
        (if length (vectorsOf m) < 8000 then Serial else Concurrent)
      else if target = DecodeTargetScenariosComplete \<or> target = DecodeTargetAll then
        (if length (vectorsOf m) < 100 then Serial else Concurrent)
      else UnknownMode)"

definition unknownDecodeMode :: "DecodedScenarioBlock \<Rightarrow> (unit, unit) hcl_Diagnostic" where
  "unknownDecodeMode sb =
     \<lparr>hcl_Severity = DiagError, hcl_Summary = ''unknown scenario decode mode'',
      hcl_Detail = ''not a known decode mode'',
      Subject = Some (TypeRange (Block sb)), hcl_Context = Some (DefRange (Block sb)),
      Expression = None, hcl_EvalContext = ()\<rparr>"

text \<open>
  The matrix stage of the loop body (lines 456-471): the block after it, and whether the
  loop goes on to the next block (\<open>continue\<close>, line 468).
\<close>

definition matrixStage ::
  "'v flightplan \<Rightarrow> 'v ScenarioDecoder \<Rightarrow> DecodedScenarioBlock \<Rightarrow> DecodedScenarioBlock \<times> bool" where
  "matrixStage fp d sb =
     (if DecodeTarget d \<ge> DecodeTargetScenariosMatrixOnly then
        (case decodeMatrix fp (EvalContext d) (Block sb) of
           (m, ds) \<Rightarrow>
             (let sb1 = sb\<lparr>Matrix := m, block_Diagnostics := block_Diagnostics sb @ ds\<rparr>
              in case m of
                   None \<Rightarrow> (sb1, False)
                 | Some mx \<Rightarrow>
                     (case ScenarioFilter d of
                        None \<Rightarrow> (sb1, False)
                      | Some f \<Rightarrow>
                          if length (Vectors mx) > 1
                          then (sb1\<lparr>Matrix := matrix_Filter fp mx f\<rparr>,
                                noVectors (matrix_Filter fp mx f))
                          else (sb1, False))))
      else (sb, False))"

text \<open>The loop body of \<open>DecodeScenarioBlocks\<close> for one block (lines 456-510).\<close>

definition decodeBlock ::
  "'v flightplan \<Rightarrow> nat list \<Rightarrow> 'v ScenarioDecoder \<Rightarrow> DecodedScenarioBlock
    \<Rightarrow> DecodedScenarioBlock \<times> 'v ScenarioDecoder" where
  "decodeBlock fp sched d sb =
     (case matrixStage fp d sb of
        (sb1, stop) \<Rightarrow>
          if stop then (sb1, d)
          else if DecodeTarget d < DecodeTargetScenariosNamesExpandVariants then (sb1, d)
          else
            (case (case chooseDecode (DecodeTarget d) (Matrix sb1) of
                     Serial \<Rightarrow> decodeScenariosSerial fp d sb1
                   | Concurrent \<Rightarrow> decodeScenariosConcurrent fp sched d sb1
                   | UnknownMode \<Rightarrow>
                       (sb1\<lparr>block_Diagnostics :=
                              block_Diagnostics sb1 @ [unknownDecodeMode sb1]\<rparr>, d)) of
               (sb2, d2) \<Rightarrow>
                 (sb2\<lparr>Scenarios := sort_key (scenario_String fp) (Scenarios sb2)\<rparr>, d2)))"

fun decodeBlocks ::
  "'v flightplan \<Rightarrow> nat list \<Rightarrow> 'v ScenarioDecoder \<Rightarrow> DecodedScenarioBlock list
    \<Rightarrow> DecodedScenarioBlock list \<times> 'v ScenarioDecoder" where
  "decodeBlocks fp sched d [] = ([], d)"
| "decodeBlocks fp sched d (sb # sbs) =
     (case decodeBlock fp sched d sb of
        (sb', d') \<Rightarrow>
          (case decodeBlocks fp sched d' sbs of
             (sbs', d'') \<Rightarrow> (sb' # sbs', d'')))"

text \<open>\<open>filterScenarioBlocks\<close> reads \<open>Labels[0]\<close>: a panic for a block with no label.\<close>

fun filterScenarioBlocks ::
  "'v flightplan \<Rightarrow> 'v ScenarioDecoder \<Rightarrow> hcl_Block list \<Rightarrow> panic + DecodedScenarioBlock list" where
  "filterScenarioBlocks fp d [] = Inr []"
| "filterScenarioBlocks fp d (b # bs) =
     (case Labels b of
        [] \<Rightarrow> Inl IndexOutOfRange
      | label # ls \<Rightarrow>
          (case filterScenarioBlocks fp d bs of
             Inl p \<Rightarrow> Inl p
           | Inr res \<Rightarrow>
               if (case ScenarioFilter d of
                     None \<Rightarrow> False
                   | Some f \<Rightarrow> filter_Name f \<noteq> [] \<and> label \<noteq> filter_Name f)
               then Inr res
               else Inr (\<lparr>Name = label, Block = b, block_DecodeTarget = DecodeTarget d,
                          Matrix = None, Scenarios = [],
                          block_Diagnostics = verifyBlockLabelsAreValidIdentifiers fp b\<rparr> # res)))"

definition DecodeScenarioBlocks ::
  "'v flightplan \<Rightarrow> nat list \<Rightarrow> 'v ScenarioDecoder \<Rightarrow> hcl_Block list
    \<Rightarrow> panic + DecodedScenarioBlock list \<times> 'v ScenarioDecoder" where
  "DecodeScenarioBlocks fp sched d blocks =
     (if length blocks < 1 then Inr ([], d)
      else
        (case filterScenarioBlocks fp d blocks of
           Inl p \<Rightarrow> Inl p
         | Inr scenarioBlocks \<Rightarrow>
             (case decodeBlocks fp sched d scenarioBlocks of
                (res, d') \<Rightarrow> Inr (sort_key Name res, d'))))"

subsection \<open>A flight plan with one scenario block and a matrix of two vectors\<close>

text \<open>
  Instances of the parameters for concrete inputs: the matrix of every block is
  \<open>foo = [matrixfoo, matrixbar]\<close>, the filter keeps the vectors that hold every
  included element, and a scenario decodes to its block's label. In \<open>planFailing\<close>
  every scenario body fails to decode, with one error diagnostic.
\<close>

definition vecFoo :: Vector where
  "vecFoo = [\<lparr>Key = ''foo'', Val = ''matrixfoo''\<rparr>]"

definition vecBar :: Vector where
  "vecBar = [\<lparr>Key = ''foo'', Val = ''matrixbar''\<rparr>]"

definition fooMatrix :: Matrix where
  "fooMatrix = \<lparr>Vectors = [vecFoo, vecBar]\<rparr>"

definition stepFailed :: "(unit, unit) hcl_Diagnostic" where
  "stepFailed =
     \<lparr>hcl_Severity = DiagError, hcl_Summary = ''unknown module'', hcl_Detail = [],
      Subject = None, hcl_Context = None, Expression = None, hcl_EvalContext = ()\<rparr>"

definition variantText :: "Scenario \<Rightarrow> string" where
  "variantText sc =
     scenario_Name sc @
     concat (map (\<lambda>e. '' '' @ Key e @ '':'' @ Val e)
               (case Variants sc of None \<Rightarrow> [] | Some v \<Rightarrow> v))"

definition plan :: "Vector flightplan" where
  "plan =
     \<lparr>NewScenario = \<lparr>scenario_Name = [], Variants = None, Steps = []\<rparr>,
      CtyVal = (\<lambda>v. v),
      scenario_decode = (\<lambda>sc b ctx target. (sc\<lparr>scenario_Name := concat (take 1 (Labels b))\<rparr>, [])),
      decodeMatrix = (\<lambda>ctx b. (Some fooMatrix, [])),
      matrix_Filter = (\<lambda>m f. Some \<lparr>Vectors =
         filter (\<lambda>v. list_all (\<lambda>e. e \<in> set v) (filter_Include f)) (Vectors m)\<rparr>),
      scenario_String = variantText,
      verifyBlockLabelsAreValidIdentifiers = (\<lambda>b. [])\<rparr>"

definition planFailing :: "Vector flightplan" where
  "planFailing = plan\<lparr>scenario_decode := (\<lambda>sc b ctx target. (sc, [stepFailed]))\<rparr>"

definition noRange :: hcl_Range where
  "noRange = \<lparr>hcl_Filename = ''enos.hcl'', hcl_Start = zeroPos, hcl_End = zeroPos\<rparr>"

definition testBlock :: hcl_Block where
  "testBlock =
     \<lparr>block_Type = ''scenario'', Labels = [''test''], Body = [],
      DefRange = noRange, TypeRange = noRange\<rparr>"

definition rootDecoder :: "DecodeTarget \<Rightarrow> ScenarioFilter option \<Rightarrow> Vector ScenarioDecoder" where
  "rootDecoder target f =
     \<lparr>EvalContext = Some (Ctx [] None), DecodeTarget = target, ScenarioFilter = f\<rparr>"

definition testScenarioBlock :: "Matrix option \<Rightarrow> DecodedScenarioBlock" where
  "testScenarioBlock m =
     \<lparr>Name = ''test'', Block = testBlock, block_DecodeTarget = DecodeTargetScenariosComplete,
      Matrix = m, Scenarios = [], block_Diagnostics = []\<rparr>"

definition noMatch :: ScenarioFilter where
  "noMatch =
     \<lparr>filter_Name = ''test'', filter_Include = [\<lparr>Key = ''foo'', Val = ''other''\<rparr>],
      filter_Exclude = []\<rparr>"

text \<open>
  In \<open>planReading\<close> the body of a scenario reads the variable \<open>matrix\<close> of the context
  it is decoded against (looked up through the parents, as the parser library does) and
  records the values it finds as the scenario's steps.
\<close>

fun lookupVariable :: "string \<Rightarrow> 'v hcl_EvalContext \<Rightarrow> 'v option" where
  "lookupVariable name (Ctx vars p) =
     (case map_of vars name of
        Some v \<Rightarrow> Some v
      | None \<Rightarrow> (case p of None \<Rightarrow> None | Some ctx \<Rightarrow> lookupVariable name ctx))"

definition planReading :: "Vector flightplan" where
  "planReading =
     plan\<lparr>scenario_decode := (\<lambda>sc b ctx target.
        (sc\<lparr>scenario_Name := concat (take 1 (Labels b)),
             Steps := (case lookupVariable ''matrix'' ctx of
                         None \<Rightarrow> []
                       | Some v \<Rightarrow> map Val v)\<rparr>, []))\<rparr>"

definition oneVector :: DecodedScenarioBlock where
  "oneVector = testScenarioBlock (Some \<lparr>Vectors = [vecFoo]\<rparr>)"

definition completeDecoder :: "Vector ScenarioDecoder" where
  "completeDecoder = rootDecoder DecodeTargetScenariosComplete None"

definition filteringDecoder :: "Vector ScenarioDecoder" where
  "filteringDecoder = rootDecoder DecodeTargetScenariosComplete (Some noMatch)"

section \<open>Theorems\<close>

text \<open>
  C9: for every non-nil error value \<open>FromErr\<close> returns exactly one diagnostic, of error
  severity, whose summary is the error's message and which has no source range (and no
  detail or snippet); for the nil error it returns no diagnostics.
\<close>

theorem FromErr_single_error:
  "FromErr None = [] \<and>
   FromErr (Some e) =
     [\<lparr>Severity = SEVERITY_ERROR, Summary = Error e, Detail = [],
       Range = None, Snippet = None\<rparr>] \<and>
   length (FromErr (Some e)) = 1 \<and>
   Severity (hd (FromErr (Some e))) = SEVERITY_ERROR \<and>
   Summary (hd (FromErr (Some e))) = Error e \<and>
   Range (hd (FromErr (Some e))) = None"
  by (simp add: FromErr_def)

text \<open>
  C10 (the code departs from the claim): \<open>FromTFJSON\<close> is not total. On a list holding a
  diagnostic whose range and snippet are absent the call panics with a nil-pointer
  dereference and returns no diagnostics at all.
\<close>

theorem FromTFJSON_nil_panics:
  "FromTFJSON [tfNoLocation] = Inl NilPointerDereference"
  by (simp add: FromTFJSON_def fromTFJSONDiag_def tfNoLocation_def)

subsection \<open>The annotation walk\<close>

lemma longestGoodPrefix_short:
  "length traversal \<le> 1 \<Longrightarrow> longestGoodPrefix lib ctx traversal = None"
  by (simp add: longestGoodPrefix_def)

lemma longestGoodPrefix_here:
  assumes "1 < length traversal" and "goodPrefix lib ctx traversal"
  shows "longestGoodPrefix lib ctx traversal = Some traversal"
proof -
  from assms(1) have "rev [2 ..< Suc (length traversal)] = length traversal # rev [2 ..< length traversal]"
    by simp
  with assms(2) show ?thesis
    by (simp add: longestGoodPrefix_def)
qed

lemma longestGoodPrefix_butlast:
  assumes "1 < length traversal" and "\<not> goodPrefix lib ctx traversal"
  shows "longestGoodPrefix lib ctx traversal = longestGoodPrefix lib ctx (butlast traversal)"
proof -
  from assms(1) have r: "rev [2 ..< Suc (length traversal)] = length traversal # rev [2 ..< length traversal]"
    by simp
  from assms(1) have s: "Suc (length (butlast traversal)) = length traversal"
    by simp
  have m: "map (\<lambda>n. take n traversal) (rev [2 ..< length traversal])
         = map (\<lambda>n. take n (butlast traversal)) (rev [2 ..< length traversal])"
    by (rule map_cong) (auto simp: take_butlast)
  show ?thesis
    unfolding longestGoodPrefix_def s r using assms(2) by (simp add: m)
qed

text \<open>
  C5, as the code has it: for a traversal referenced by the failing expression, the walk
  evaluates the prefixes from the full traversal down to length two (never the root
  alone), and records one annotation, at the longest prefix of length two or more that
  evaluates without an error, unless the string of that prefix is already recorded for
  an earlier traversal; when no such prefix evaluates, it records nothing.
\<close>

theorem walkTraversal_records:
  "walkTraversal lib ctx traversal vals seen =
     (case longestGoodPrefix lib ctx traversal of
        None \<Rightarrow> (vals, seen)
      | Some p \<Rightarrow>
          if traversalStr lib p \<in> seen then (vals, seen)
          else (vals @ [expressionValue lib ctx p], insert (traversalStr lib p) seen))"
proof (induction lib ctx traversal vals seen rule: walkTraversal.induct)
  case (1 lib ctx traversal vals seen)
  show ?case
  proof (cases "1 < length traversal")
    case False
    then show ?thesis
      by (simp add: walkTraversal.simps [of lib ctx traversal] longestGoodPrefix_short)
  next
    case long: True
    show ?thesis
    proof (cases "HasErrors (snd (TraverseAbs lib traversal ctx))")
      case True
      then have "\<not> goodPrefix lib ctx traversal"
        by (simp add: goodPrefix_def)
      with long have "longestGoodPrefix lib ctx traversal
          = longestGoodPrefix lib ctx (butlast traversal)"
        by (rule longestGoodPrefix_butlast)
      moreover from long True have "walkTraversal lib ctx traversal vals seen
          = walkTraversal lib ctx (butlast traversal) vals seen"
        by (simp add: walkTraversal.simps [of lib ctx traversal])
      ultimately show ?thesis
        using "1.IH"(1) [OF long True] by simp
    next
      case False
      then have "goodPrefix lib ctx traversal"
        by (simp add: goodPrefix_def)
      with long have here: "longestGoodPrefix lib ctx traversal = Some traversal"
        by (rule longestGoodPrefix_here)
      show ?thesis
      proof (cases "traversalStr lib traversal \<in> seen")
        case True
        with long False here show ?thesis
          by (simp add: walkTraversal.simps [of lib ctx traversal])
      next
        case unseen: False
        from long False unseen have "walkTraversal lib ctx traversal vals seen
            = walkTraversal lib ctx traversal (vals @ [expressionValue lib ctx traversal])
                (insert (traversalStr lib traversal) seen)"
          by (subst walkTraversal.simps) simp
        with "1.IH"(2) [OF long False unseen] here unseen show ?thesis
          by simp
      qed
    qed
  qed
qed

text \<open>
  C5 as stated fails: in a context where \<open>var\<close> evaluates and \<open>var.missing\<close> does not,
  the only error-free prefix of the traversal \<open>var.missing\<close> has length one, and the
  walk records no annotation for it; nor does it for the traversal \<open>var\<close> itself.
\<close>

theorem walkTraversal_root_counterexample:
  "goodPrefix refLib [[TraverseRoot ''var'']] [TraverseRoot ''var''] \<and>
   \<not> goodPrefix refLib [[TraverseRoot ''var'']] [TraverseRoot ''var'', TraverseAttr ''missing''] \<and>
   walkTraversal refLib [[TraverseRoot ''var'']]
     [TraverseRoot ''var'', TraverseAttr ''missing''] [] {} = ([], {}) \<and>
   walkTraversal refLib [[TraverseRoot ''var'']] [TraverseRoot ''var''] [] {} = ([], {})"
  by (simp add: walkTraversal.simps goodPrefix_def refLib_def refTraverseAbs_def HasErrors_def)

subsection \<open>The highlight offsets of a snippet\<close>

lemma wrap64_id: "- (2 ^ 63) \<le> x \<Longrightarrow> x < 2 ^ 63 \<Longrightarrow> wrap64 x = x"
  by (simp add: wrap64_def)

lemma capOffset_bounds: "0 \<le> capOffset x c \<and> capOffset x c \<le> int (length c)"
  by (simp add: capOffset_def)

lemma capOffset_mono: "x \<le> y \<Longrightarrow> capOffset x c \<le> capOffset y c"
  by (simp add: capOffset_def)

lemma makeSnippet_offsets:
  "\<exists>x y. HighlightStartOffset (makeSnippet lib bytes hl sr diag) = capOffset x (Code (makeSnippet lib bytes hl sr diag))
     \<and> HighlightEndOffset (makeSnippet lib bytes hl sr diag) = capOffset y (Code (makeSnippet lib bytes hl sr diag))"
  by (auto simp: makeSnippet_def Let_def split: prod.splits)

lemma scanCode_start:
  "fst (scanCode lib bytes sr ls (c, code)) = c \<or>
   fst (scanCode lib bytes sr ls (c, code)) \<in> (\<lambda>l. hcl_Byte (hcl_Start l)) ` set ls"
proof (induction ls arbitrary: c code)
  case Nil
  show ?case by simp
next
  case (Cons l ls)
  show ?case
  proof (cases "Overlaps lib l sr")
    case False
    with Cons.IH [of c code] show ?thesis by auto
  next
    case True
    let ?c' = "if c = 0 \<and> length code = 0 then hcl_Byte (hcl_Start l) else c"
    let ?code' = "code @ SliceBytes lib l bytes @ [CHR 0x0A]"
    from True have "scanCode lib bytes sr (l # ls) (c, code) = scanCode lib bytes sr ls (?c', ?code')"
      by simp
    with Cons.IH [of ?c' ?code'] show ?thesis by (auto split: if_splits)
  qed
qed

lemma highlightOf_start: "hcl_Start (highlightOf lib r) = hcl_Start r"
  by (simp add: highlightOf_def growEnd_def Let_def)

lemma highlightOf_filename: "hcl_Filename (highlightOf lib r) = hcl_Filename r"
  by (simp add: highlightOf_def growEnd_def Let_def)

lemma highlightOf_end:
  assumes "offsetOK (hcl_Byte (hcl_Start r))" and "offsetOK (hcl_Byte (hcl_End r))"
    and "hcl_Byte (hcl_Start r) \<le> hcl_Byte (hcl_End r) \<or> hcl_End r = zeroPos"
  shows "hcl_Byte (hcl_Start r) \<le> hcl_Byte (hcl_End (highlightOf lib r)) \<and>
         hcl_Byte (hcl_End (highlightOf lib r)) \<le> 2 ^ 62"
proof -
  let ?h = "if hcl_End r = zeroPos then r\<lparr>hcl_End := hcl_Start r\<rparr> else r"
  have h: "hcl_Byte (hcl_Start r) \<le> hcl_Byte (hcl_End ?h) \<and> hcl_Byte (hcl_End ?h) < 2 ^ 62"
    using assms by (auto simp: offsetOK_def)
  then have w: "wrap64 (hcl_Byte (hcl_End ?h) + 1) = hcl_Byte (hcl_End ?h) + 1"
    using assms(1) by (intro wrap64_id) (auto simp: offsetOK_def)
  have "highlightOf lib r = (if Empty lib ?h then growEnd ?h else ?h)"
    by (simp add: highlightOf_def Let_def)
  then show ?thesis
    using h w by (auto simp: growEnd_def)
qed


lemma makeSnippet_bounds:
  "0 \<le> HighlightStartOffset (makeSnippet lib bytes hl sr diag) \<and>
   HighlightStartOffset (makeSnippet lib bytes hl sr diag)
     \<le> int (length (Code (makeSnippet lib bytes hl sr diag))) \<and>
   0 \<le> HighlightEndOffset (makeSnippet lib bytes hl sr diag) \<and>
   HighlightEndOffset (makeSnippet lib bytes hl sr diag)
     \<le> int (length (Code (makeSnippet lib bytes hl sr diag)))"
  by (simp add: makeSnippet_def Let_def capOffset_bounds split: prod.splits)

lemma makeSnippet_ordered:
  assumes hs: "0 \<le> hcl_Byte (hcl_Start hl)" "hcl_Byte (hcl_Start hl) \<le> hcl_Byte (hcl_End hl)"
    and he: "hcl_Byte (hcl_End hl) \<le> 2 ^ 62"
    and ls: "list_all (\<lambda>l. offsetOK (hcl_Byte (hcl_Start l))) (ScanLines lib bytes (hcl_Filename hl))"
  shows "HighlightStartOffset (makeSnippet lib bytes hl sr diag)
       \<le> HighlightEndOffset (makeSnippet lib bytes hl sr diag)"
proof -
  obtain csb code where sc:
    "scanCode lib bytes sr (ScanLines lib bytes (hcl_Filename hl)) (0, []) = (csb, code)"
    by (cases "scanCode lib bytes sr (ScanLines lib bytes (hcl_Filename hl)) (0, [])")
  from scanCode_start [of lib bytes sr "ScanLines lib bytes (hcl_Filename hl)" 0 "[]"] sc
  have "csb = 0 \<or> csb \<in> (\<lambda>l. hcl_Byte (hcl_Start l)) ` set (ScanLines lib bytes (hcl_Filename hl))"
    by simp
  with ls have csb: "0 \<le> csb \<and> csb < 2 ^ 62"
    by (auto simp: list_all_iff offsetOK_def)
  let ?hs = "hcl_Byte (hcl_Start hl)" and ?he = "hcl_Byte (hcl_End hl)"
  have w1: "wrap64 (?hs - csb) = ?hs - csb"
    using hs he csb by (intro wrap64_id) auto
  have w2: "wrap64 (?he - ?hs) = ?he - ?hs"
    using hs he by (intro wrap64_id) auto
  have w3: "wrap64 (?he - csb) = ?he - csb"
    using hs he csb by (intro wrap64_id) auto
  have "capOffset (?hs - csb) (TrimSuffix code [CHR 0x0A])
      \<le> capOffset (?he - csb) (TrimSuffix code [CHR 0x0A])"
    using hs by (intro capOffset_mono) simp
  then show ?thesis
    by (simp add: makeSnippet_def Let_def sc w1 w2 w3)
qed

lemma fromHCLDiag_snippet:
  assumes "Snippet (fromHCLDiag lib files diag) = Some sn"
  shows "\<exists>subject file bytes.
           Subject diag = Some subject \<and> files (hcl_Filename subject) = Some file \<and>
           Bytes file = Some bytes \<and>
           sn = makeSnippet lib bytes (highlightOf lib subject)
                  (snippetOf lib subject (hcl_Context diag)) diag"
  using assms by (auto simp: fromHCLDiag_def Let_def split: option.splits)

text \<open>
  C6, as the code has it: for every diagnostic that \<open>FromHCL\<close> returns with a snippet,
  both highlight offsets lie within 0 and the length of the snippet's code; and the end
  offset is at least the start offset when the subject of the diagnostic is ordered (its
  end byte not before its start byte, offsets that index a file).
\<close>

theorem FromHCL_highlight_offsets:
  assumes "i < length diags"
    and "Snippet (FromHCL lib files diags ! i) = Some sn"
  shows "0 \<le> HighlightStartOffset sn \<and>
         HighlightStartOffset sn \<le> int (length (Code sn)) \<and>
         0 \<le> HighlightEndOffset sn \<and>
         HighlightEndOffset sn \<le> int (length (Code sn)) \<and>
         (orderedSubject lib files (diags ! i)
            \<longrightarrow> HighlightStartOffset sn \<le> HighlightEndOffset sn)"
proof -
  from assms have "Snippet (fromHCLDiag lib files (diags ! i)) = Some sn"
    by (simp add: FromHCL_def split: if_splits)
  then obtain subject fl bytes where
    s: "Subject (diags ! i) = Some subject" and
    f: "files (hcl_Filename subject) = Some fl" and
    b: "Bytes fl = Some bytes" and
    sn: "sn = makeSnippet lib bytes (highlightOf lib subject)
                (snippetOf lib subject (hcl_Context (diags ! i))) (diags ! i)"
    using fromHCLDiag_snippet by blast
  have bounds: "0 \<le> HighlightStartOffset sn \<and>
         HighlightStartOffset sn \<le> int (length (Code sn)) \<and>
         0 \<le> HighlightEndOffset sn \<and>
         HighlightEndOffset sn \<le> int (length (Code sn))"
    unfolding sn by (rule makeSnippet_bounds)
  have "HighlightStartOffset sn \<le> HighlightEndOffset sn"
    if ok: "orderedSubject lib files (diags ! i)"
  proof -
    from ok s f b have
      o1: "offsetOK (hcl_Byte (hcl_Start subject))" and
      o2: "offsetOK (hcl_Byte (hcl_End subject))" and
      o3: "hcl_Byte (hcl_Start subject) \<le> hcl_Byte (hcl_End subject) \<or> hcl_End subject = zeroPos" and
      o4: "list_all (\<lambda>l. offsetOK (hcl_Byte (hcl_Start l))) (ScanLines lib bytes (hcl_Filename subject))"
      by (simp_all add: orderedSubject_def)
    from highlightOf_end [OF o1 o2 o3, of lib] o1 o4 show ?thesis
      unfolding sn
      by (intro makeSnippet_ordered)
         (simp_all add: highlightOf_start highlightOf_filename offsetOK_def)
  qed
  with bounds show ?thesis by blast
qed

theorem FromHCL_highlight_offsets_witness:
  "0 < length [diagOn worldRange] \<and>
   Snippet (FromHCL refLib helloFiles [diagOn worldRange] ! 0) = Some worldSnippet \<and>
   orderedSubject refLib helloFiles ([diagOn worldRange] ! 0) \<and>
   0 \<le> HighlightStartOffset worldSnippet \<and>
   HighlightStartOffset worldSnippet \<le> int (length (Code worldSnippet)) \<and>
   0 \<le> HighlightEndOffset worldSnippet \<and>
   HighlightEndOffset worldSnippet \<le> int (length (Code worldSnippet)) \<and>
   HighlightStartOffset worldSnippet \<le> HighlightEndOffset worldSnippet"
proof -
  have len: "0 < length [diagOn worldRange]"
    by simp
  have sn: "Snippet (FromHCL refLib helloFiles [diagOn worldRange] ! 0) = Some worldSnippet"
    by (simp add: FromHCL_def fromHCLDiag_def diagOn_def worldRange_def helloFiles_def
      highlightOf_def snippetOf_def makeSnippet_def refLib_def Let_def zeroPos_def
      refEmpty_def refRangeOver_def refOverlaps_def refContainsOffset_def refSliceBytes_def
      refScanLines_def capOffset_def TrimSuffix_def wrap64_def hclSeverity_def
      hclRangeToProtoRange_def growEnd_def worldSnippet_def)
  have ok: "orderedSubject refLib helloFiles ([diagOn worldRange] ! 0)"
    by (simp add: orderedSubject_def diagOn_def worldRange_def helloFiles_def offsetOK_def
      refLib_def refScanLines_def)
  from FromHCL_highlight_offsets [OF len sn] len sn ok show ?thesis
    by blast
qed

text \<open>
  C6 as stated fails: for a subject whose end byte (2) is before its start byte (5) the
  snippet has the start offset 5 and the end offset 2.
\<close>

theorem FromHCL_backwards_counterexample:
  "Snippet (hd (FromHCL refLib helloFiles [diagOn backwardsRange])) = Some backwardsSnippet \<and>
   HighlightEndOffset backwardsSnippet < HighlightStartOffset backwardsSnippet"
  by (simp add: FromHCL_def fromHCLDiag_def diagOn_def backwardsRange_def helloFiles_def
      highlightOf_def snippetOf_def makeSnippet_def refLib_def Let_def zeroPos_def
      refEmpty_def refRangeOver_def refOverlaps_def refContainsOffset_def refSliceBytes_def
      refScanLines_def capOffset_def TrimSuffix_def wrap64_def hclSeverity_def
      hclRangeToProtoRange_def growEnd_def backwardsSnippet_def)

subsection \<open>filterSubsets\<close>

lemma findIndex_None: "findIndex name xs = None \<Longrightarrow> find (\<lambda>ss. name = subset_Name ss) xs = None"
  by (induction xs) (auto split: if_splits)

lemma findIndex_Some:
  "findIndex name xs = Some j \<Longrightarrow>
     j < length xs \<and> find (\<lambda>ss. name = subset_Name ss) xs = Some (xs ! j) \<and>
     removeFirst name xs = take j xs @ drop (Suc j) xs"
  by (induction xs arbitrary: j) (auto split: if_splits)

lemma removeFirst_None: "findIndex name xs = None \<Longrightarrow> removeFirst name xs = xs"
  by (induction xs) (auto split: if_splits)

lemma includeLoop_spec:
  "includeLoop names (SubsetsArray, m) h n = (h', n') \<Longrightarrow> n \<le> length (h NewSubsArray) \<Longrightarrow>
     h' SubsetsArray = h SubsetsArray \<and> n' \<le> length (h' NewSubsArray) \<and>
     take n' (h' NewSubsArray) =
       take n (h NewSubsArray) @
       List.map_filter (\<lambda>name. find (\<lambda>ss. name = subset_Name ss) (take m (h SubsetsArray))) names"
proof (induction names arbitrary: h n)
  case Nil
  then show ?case by (simp add: map_filter_simps)
next
  case (Cons name names)
  show ?case
  proof (cases "findIndex name (take m (h SubsetsArray))")
    case None
    with Cons.prems have "includeLoop names (SubsetsArray, m) h n = (h', n')"
      by (simp add: elems_def)
    from Cons.IH [OF this Cons.prems(2)] findIndex_None [OF None] show ?thesis
      by (simp add: map_filter_simps)
  next
    case (Some j)
    let ?x = "take m (h SubsetsArray) ! j"
    let ?h = "h(NewSubsArray := take n (h NewSubsArray) @ [?x])"
    from Cons.prems Some have "includeLoop names (SubsetsArray, m) ?h (Suc n) = (h', n')"
      by (simp add: elems_def appendNew_def)
    moreover from Cons.prems(2) have "Suc n \<le> length (?h NewSubsArray)"
      by simp
    ultimately have "h' SubsetsArray = ?h SubsetsArray \<and> n' \<le> length (h' NewSubsArray) \<and>
        take n' (h' NewSubsArray) = take (Suc n) (?h NewSubsArray) @
          List.map_filter (\<lambda>name. find (\<lambda>ss. name = subset_Name ss) (take m (?h SubsetsArray))) names"
      by (rule Cons.IH)
    with findIndex_Some [OF Some] Cons.prems(2) show ?thesis
      by (simp add: map_filter_simps)
  qed
qed

lemma deleteAt_elems:
  assumes "findIndex name (elems h sl) = Some j" and "snd sl \<le> length (h (fst sl))"
    and "deleteAt h sl j = (h', sl')"
  shows "elems h' sl' = removeFirst name (elems h sl) \<and> snd sl' \<le> length (h' (fst sl'))"
proof -
  obtain a n where sl: "sl = (a, n)" by (cases sl)
  let ?xs = "take n (h a)"
  from assms(1) sl have j: "j < length ?xs" and r: "removeFirst name ?xs = take j ?xs @ drop (Suc j) ?xs"
    using findIndex_Some [of name ?xs j] by (simp_all add: elems_def)
  from j assms(2) sl have jn: "j < n" and nl: "n \<le> length (h a)" by simp_all
  from assms(3) sl have h': "h' = h(a := take j (h a) @ drop (Suc j) ?xs @ drop (n - 1) (h a))"
    and sl': "sl' = (a, n - 1)"
    by (simp_all add: deleteAt_def Let_def)
  have tj: "take j (h a) = take j ?xs" using jn by simp
  have len: "length (take j ?xs @ drop (Suc j) ?xs) = n - 1"
    using jn nl by simp
  have pre: "take k (ys @ zs) = ys" if "length ys = k" for k and ys zs :: "SampleSubset list"
    using that by simp
  have "take (n - 1) ((take j ?xs @ drop (Suc j) ?xs) @ drop (n - 1) (h a)) = take j ?xs @ drop (Suc j) ?xs"
    using len by (rule pre)
  then have "elems h' sl' = take j ?xs @ drop (Suc j) ?xs"
    by (simp add: elems_def h' sl' tj)
  moreover have "snd sl' \<le> length (h' (fst sl'))"
    using jn nl by (simp add: h' sl')
  ultimately show ?thesis using r sl by (simp add: elems_def)
qed

lemma excludeLoop_spec:
  "excludeLoop names sl h = (h', sl') \<Longrightarrow> snd sl \<le> length (h (fst sl)) \<Longrightarrow>
     elems h' sl' = foldl (\<lambda>xs name. removeFirst name xs) (elems h sl) names"
proof (induction names arbitrary: h sl)
  case Nil
  then show ?case by simp
next
  case (Cons name names)
  show ?case
  proof (cases "findIndex name (elems h sl)")
    case None
    with Cons.prems have "excludeLoop names sl h = (h', sl')" by simp
    from Cons.IH [OF this Cons.prems(2)] removeFirst_None [OF None] show ?thesis by simp
  next
    case (Some j)
    obtain h1 sl1 where d: "deleteAt h sl j = (h1, sl1)" by (cases "deleteAt h sl j")
    from deleteAt_elems [OF Some Cons.prems(2) d]
    have e: "elems h1 sl1 = removeFirst name (elems h sl)" and l: "snd sl1 \<le> length (h1 (fst sl1))"
      by simp_all
    from Cons.prems(1) Some d have "excludeLoop names sl1 h1 = (h', sl')" by simp
    from Cons.IH [OF this l] e show ?thesis by simp
  qed
qed

text \<open>
  C7, as the code has it: when the sample has subsets, \<open>filterSubsets\<close> returns, for a
  filter with an include list, for each name of that list in the list's order the first
  subset of the sample with that name, and for a nil filter or one with no include list
  all the subsets of the sample in their order; from these it removes, for each name of
  the exclude list in turn, the first subset left with that name.
\<close>

theorem filterSubsets_result:
  "fst (filterSubsets (Some smp) flt) =
     (if Subsets smp = [] then []
      else case flt of
             None \<Rightarrow> Subsets smp
           | Some f \<Rightarrow>
               excludeReduce (filter_ExcludeSubsets f)
                 (includeReduce (filter_Subsets f) (Subsets smp)))"
proof (cases "Subsets smp = []")
  case True
  then show ?thesis by (simp add: filterSubsets_def)
next
  case ne: False
  let ?h0 = "\<lambda>a. case a of SubsetsArray \<Rightarrow> Subsets smp | NewSubsArray \<Rightarrow> []"
  let ?s0 = "(SubsetsArray, length (Subsets smp))"
  show ?thesis
  proof (cases flt)
    case None
    with ne show ?thesis by (simp add: filterSubsets_def elems_def)
  next
    case (Some f)
    obtain h1 sl1 where one:
      "(case filter_Subsets f of
          None \<Rightarrow> (?h0, ?s0)
        | Some inclSubs \<Rightarrow>
            (case includeLoop inclSubs ?s0 ?h0 0 of (h, n) \<Rightarrow> (h, (NewSubsArray, n)))) = (h1, sl1)"
      by (cases "(case filter_Subsets f of
          None \<Rightarrow> (?h0, ?s0)
        | Some inclSubs \<Rightarrow>
            (case includeLoop inclSubs ?s0 ?h0 0 of (h, n) \<Rightarrow> (h, (NewSubsArray, n))))")
    have inc: "elems h1 sl1 = includeReduce (filter_Subsets f) (Subsets smp) \<and>
               snd sl1 \<le> length (h1 (fst sl1))"
    proof (cases "filter_Subsets f")
      case None
      with one show ?thesis by (auto simp: includeReduce_def elems_def)
    next
      case (Some inclSubs)
      obtain h n where il: "includeLoop inclSubs ?s0 ?h0 0 = (h, n)"
        by (cases "includeLoop inclSubs ?s0 ?h0 0")
      from includeLoop_spec [OF il]
      have t: "take n (h NewSubsArray) =
          List.map_filter (\<lambda>name. find (\<lambda>ss. name = subset_Name ss) (Subsets smp)) inclSubs"
        and l: "n \<le> length (h NewSubsArray)"
        by simp_all
      from one Some il have h1: "h1 = h" and sl1: "sl1 = (NewSubsArray, n)" by simp_all
      from t l show ?thesis
        by (simp add: h1 sl1 elems_def includeReduce_def Some)
    qed
    obtain h2 sl2 where two:
      "(case filter_ExcludeSubsets f of
          None \<Rightarrow> (h1, sl1)
        | Some exclSubs \<Rightarrow> excludeLoop exclSubs sl1 h1) = (h2, sl2)"
      by (cases "(case filter_ExcludeSubsets f of
          None \<Rightarrow> (h1, sl1)
        | Some exclSubs \<Rightarrow> excludeLoop exclSubs sl1 h1)")
    have exc: "elems h2 sl2 = excludeReduce (filter_ExcludeSubsets f) (elems h1 sl1)"
    proof (cases "filter_ExcludeSubsets f")
      case None
      with two show ?thesis by (simp add: excludeReduce_def)
    next
      case (Some exclSubs)
      with two have "excludeLoop exclSubs sl1 h1 = (h2, sl2)" by simp
      from excludeLoop_spec [OF this] inc Some show ?thesis
        by (simp add: excludeReduce_def)
    qed
    from ne Some one two have "fst (filterSubsets (Some smp) flt) = elems h2 sl2"
      by (simp add: filterSubsets_def Let_def)
    with exc inc ne Some show ?thesis by simp
  qed
qed

text \<open>
  C7 as stated fails twice. The include step does not keep the order of the sample's
  list: for the sample a, b, c and the include list c, a the result is c, a. And the
  sample's own list does not stay as it was: with no include list and b excluded, the
  in-place deletion leaves the sample with the subsets a, c, c.
\<close>

theorem filterSubsets_counterexample:
  "Subsets sampleABC = [subsetNamed ''a'', subsetNamed ''b'', subsetNamed ''c''] \<and>
   fst (filterSubsets (Some sampleABC) (Some (onlySubsets [''c'', ''a''])))
     = [subsetNamed ''c'', subsetNamed ''a''] \<and>
   snd (filterSubsets (Some sampleABC) (Some (exceptSubsets [''b''])))
     = Some (sampleABC\<lparr>Subsets := [subsetNamed ''a'', subsetNamed ''c'', subsetNamed ''c'']\<rparr>)"
  by (simp add: filterSubsets_def sampleABC_def onlySubsets_def exceptSubsets_def
      subsetNamed_def elems_def appendNew_def deleteAt_def Let_def)

subsection \<open>Frame\<close>

lemma filterSubsets_nil_sample: "filterSubsets s flt = (subsets, None) \<Longrightarrow> subsets = []"
  by (auto simp: filterSubsets_def Let_def split: option.splits if_splits prod.splits)

lemma frameLoop_ok:
  "\<forall>ss \<in> set subsets. snd (subsetFrame ss) = None \<Longrightarrow>
     \<exists>frames'. frameLoop subsetFrame name subsets frames = Inr frames' \<and>
       dom frames' = dom frames \<union> subset_Name ` {ss \<in> set subsets. fst (subsetFrame ss) \<noteq> None}"
proof (induction subsets arbitrary: frames)
  case Nil
  then show ?case by simp
next
  case (Cons ss subsets)
  then have none: "snd (subsetFrame ss) = None" and rest: "\<forall>x \<in> set subsets. snd (subsetFrame x) = None"
    by simp_all
  show ?case
  proof (cases "fst (subsetFrame ss)")
    case None
    with none have sf: "subsetFrame ss = (None, None)" by (cases "subsetFrame ss") simp
    from Cons.IH [OF rest, of frames] sf None show ?thesis by auto
  next
    case (Some frame)
    with none have sf: "subsetFrame ss = (Some frame, None)" by (cases "subsetFrame ss") simp
    from Cons.IH [OF rest, of "frames(subset_Name ss \<mapsto> frame\<lparr>SampleName := name\<rparr>)"]
    obtain frames' where
      l: "frameLoop subsetFrame name subsets
            (frames(subset_Name ss \<mapsto> frame\<lparr>SampleName := name\<rparr>)) = Inr frames'" and
      d: "dom frames' = dom (frames(subset_Name ss \<mapsto> frame\<lparr>SampleName := name\<rparr>)) \<union>
            subset_Name ` {x \<in> set subsets. fst (subsetFrame x) \<noteq> None}"
      by blast
    have "{x \<in> set (ss # subsets). fst (subsetFrame x) \<noteq> None}
        = insert ss {x \<in> set subsets. fst (subsetFrame x) \<noteq> None}"
      using Some by auto
    then have "subset_Name ` {x \<in> set (ss # subsets). fst (subsetFrame x) \<noteq> None}
        = insert (subset_Name ss) (subset_Name ` {x \<in> set subsets. fst (subsetFrame x) \<noteq> None})"
      by simp
    with l d sf show ?thesis by simp
  qed
qed

lemma frameLoop_err:
  "\<exists>ss \<in> set subsets. snd (subsetFrame ss) \<noteq> None \<Longrightarrow>
     \<exists>err. frameLoop subsetFrame name subsets frames = Inl err \<and>
       (\<exists>ss \<in> set subsets. snd (subsetFrame ss) = Some err)"
proof (induction subsets arbitrary: frames)
  case Nil
  then show ?case by simp
next
  case (Cons ss subsets)
  show ?case
  proof (cases "subsetFrame ss")
    case (Pair frame resp)
    show ?thesis
    proof (cases resp)
      case (Some err)
      with Pair show ?thesis by (cases frame) auto
    next
      case None
      with Pair Cons.prems have "\<exists>x \<in> set subsets. snd (subsetFrame x) \<noteq> None" by auto
      from Cons.IH [OF this] Pair None show ?thesis
        by (cases frame) auto
    qed
  qed
qed

text \<open>
  C8, as the code has it: when the reduction leaves no subsets, \<open>Frame\<close> returns no frame
  and a response with exactly one diagnostic, of error severity. Otherwise, when the
  frame of some surviving subset comes with an error response, \<open>Frame\<close> returns no frame
  and such a response; and when none does, it returns a frame whose \<open>SubsetFrames\<close> are
  keyed by the names of the surviving subsets that have a frame (a nil frame is skipped).
\<close>

theorem Frame_result:
  assumes "filterSubsets s flt = (subsets, s')"
  shows "(subsets = [] \<longrightarrow>
           fst (Frame filterString subsetFrame s flt) =
             (None, Some \<lparr>Diagnostics =
                [\<lparr>Severity = SEVERITY_ERROR,
                  Summary = ''no subsets matched the given filter: '' @ filterString flt,
                  Detail = [], Range = None, Snippet = None\<rparr>]\<rparr>)) \<and>
         (subsets \<noteq> [] \<and> (\<exists>ss \<in> set subsets. snd (subsetFrame ss) \<noteq> None) \<longrightarrow>
           (\<exists>err. fst (Frame filterString subsetFrame s flt) = (None, Some err) \<and>
                  (\<exists>ss \<in> set subsets. snd (subsetFrame ss) = Some err))) \<and>
         (subsets \<noteq> [] \<and> (\<forall>ss \<in> set subsets. snd (subsetFrame ss) = None) \<longrightarrow>
           (\<exists>f. fst (Frame filterString subsetFrame s flt) = (Some f, None) \<and>
                dom (SubsetFrames f) =
                  subset_Name ` {ss \<in> set subsets. fst (subsetFrame ss) \<noteq> None}))"
proof (intro conjI impI)
  assume "subsets = []"
  with assms show "fst (Frame filterString subsetFrame s flt) =
             (None, Some \<lparr>Diagnostics =
                [\<lparr>Severity = SEVERITY_ERROR,
                  Summary = ''no subsets matched the given filter: '' @ filterString flt,
                  Detail = [], Range = None, Snippet = None\<rparr>]\<rparr>)"
    by (simp add: Frame_def FromErr_def noSubsetsMatched_def)
next
  assume a: "subsets \<noteq> [] \<and> (\<exists>ss \<in> set subsets. snd (subsetFrame ss) \<noteq> None)"
  with assms filterSubsets_nil_sample obtain smp where s': "s' = Some smp"
    by (cases s') auto
  from a frameLoop_err [of subsets subsetFrame "sample_Name smp" Map.empty]
  obtain err where "frameLoop subsetFrame (sample_Name smp) subsets Map.empty = Inl err"
    and "\<exists>ss \<in> set subsets. snd (subsetFrame ss) = Some err"
    by blast
  with assms a s' show "\<exists>err. fst (Frame filterString subsetFrame s flt) = (None, Some err) \<and>
                  (\<exists>ss \<in> set subsets. snd (subsetFrame ss) = Some err)"
    by (simp add: Frame_def)
next
  assume a: "subsets \<noteq> [] \<and> (\<forall>ss \<in> set subsets. snd (subsetFrame ss) = None)"
  with assms filterSubsets_nil_sample obtain smp where s': "s' = Some smp"
    by (cases s') auto
  from a frameLoop_ok [of subsets subsetFrame "sample_Name smp" Map.empty]
  obtain frames where "frameLoop subsetFrame (sample_Name smp) subsets Map.empty = Inr frames"
    and "dom frames = subset_Name ` {ss \<in> set subsets. fst (subsetFrame ss) \<noteq> None}"
    by auto
  with assms a s' show "\<exists>f. fst (Frame filterString subsetFrame s flt) = (Some f, None) \<and>
                dom (SubsetFrames f) =
                  subset_Name ` {ss \<in> set subsets. fst (subsetFrame ss) \<noteq> None}"
    by (simp add: Frame_def)
qed

theorem Frame_result_witness:
  "filterSubsets (Some sampleABC) None = (Subsets sampleABC, Some sampleABC) \<and>
   Subsets sampleABC \<noteq> [] \<and>
   list_all (\<lambda>ss. snd (frameNilForB ss) = None) (Subsets sampleABC) \<and>
   (\<exists>f. fst (Frame filterText frameNilForB (Some sampleABC) None) = (Some f, None) \<and>
        dom (SubsetFrames f) = {''a'', ''c''}) \<and>
   list_ex (\<lambda>ss. snd (frameErrForB ss) \<noteq> None) (Subsets sampleABC) \<and>
   (\<exists>err. fst (Frame filterText frameErrForB (Some sampleABC) None) = (None, Some err)) \<and>
   filterSubsets (Some sampleABC) (Some (onlySubsets [''x''])) = ([], Some sampleABC) \<and>
   fst (Frame filterText frameNilForB (Some sampleABC) (Some (onlySubsets [''x'']))) =
     (None, Some \<lparr>Diagnostics =
        [\<lparr>Severity = SEVERITY_ERROR,
          Summary = ''no subsets matched the given filter: subsets'',
          Detail = [], Range = None, Snippet = None\<rparr>]\<rparr>)"
proof -
  have all: "filterSubsets (Some sampleABC) None = (Subsets sampleABC, Some sampleABC)"
    by (simp add: filterSubsets_def sampleABC_def elems_def)
  have ne: "Subsets sampleABC \<noteq> []"
    by (simp add: sampleABC_def)
  have ok: "list_all (\<lambda>ss. snd (frameNilForB ss) = None) (Subsets sampleABC)"
    by (simp add: sampleABC_def frameNilForB_def)
  have bad: "list_ex (\<lambda>ss. snd (frameErrForB ss) \<noteq> None) (Subsets sampleABC)"
    by (simp add: sampleABC_def frameErrForB_def subsetNamed_def)
  have keys: "subset_Name ` {ss \<in> set (Subsets sampleABC). fst (frameNilForB ss) \<noteq> None} = {''a'', ''c''}"
    unfolding set_filter [symmetric]
    by (simp add: sampleABC_def frameNilForB_def subsetNamed_def)
  have none: "filterSubsets (Some sampleABC) (Some (onlySubsets [''x''])) = ([], Some sampleABC)"
    by (simp add: filterSubsets_def sampleABC_def onlySubsets_def subsetNamed_def elems_def Let_def)
  from Frame_result [OF all, of filterText frameNilForB] ne ok keys
  have one: "\<exists>f. fst (Frame filterText frameNilForB (Some sampleABC) None) = (Some f, None) \<and>
        dom (SubsetFrames f) = {''a'', ''c''}"
    by (simp add: list_all_iff)
  from Frame_result [OF all, of filterText frameErrForB] ne bad
  have two: "\<exists>err. fst (Frame filterText frameErrForB (Some sampleABC) None) = (None, Some err)"
    by (auto simp: list_ex_iff)
  from Frame_result [OF none, of filterText frameNilForB]
  have three: "fst (Frame filterText frameNilForB (Some sampleABC) (Some (onlySubsets [''x'']))) =
     (None, Some \<lparr>Diagnostics =
        [\<lparr>Severity = SEVERITY_ERROR,
          Summary = ''no subsets matched the given filter: subsets'',
          Detail = [], Range = None, Snippet = None\<rparr>]\<rparr>)"
    by (simp add: filterText_def)
  from all ne ok one bad two none three show ?thesis
    by blast
qed

text \<open>
  C8 as stated fails: the nil filter leaves the three subsets of the sample, and when
  the frame of the subset b returns an error response, \<open>Frame\<close> returns no frame but
  that response.
\<close>

theorem Frame_counterexample:
  "fst (filterSubsets (Some sampleABC) None)
     = [subsetNamed ''a'', subsetNamed ''b'', subsetNamed ''c''] \<and>
   fst (Frame filterText frameErrForB (Some sampleABC) None) = (None, Some subsetFailed)"
  by (simp add: Frame_def filterSubsets_def sampleABC_def subsetNamed_def elems_def
      frameErrForB_def)

subsection \<open>The scenario decoder\<close>

lemma chooseDecode_Serial: "chooseDecode target m = Serial"
  by (cases m) (simp_all add: chooseDecode_def)

lemma decodeInto_Matrix: "Matrix (fst (decodeInto fp vec (sb, d))) = Matrix sb"
  by (simp add: decodeInto_def split: prod.splits)

lemma serialLoop_Matrix: "Matrix (fst (serialLoop fp vecs st)) = Matrix (fst st)"
proof (induction vecs arbitrary: st)
  case Nil
  show ?case by simp
next
  case (Cons vec vecs)
  obtain sb d where st: "st = (sb, d)" by (cases st)
  from Cons.IH [of "decodeInto fp (Some vec) st"] show ?case
    by (simp add: st decodeInto_Matrix)
qed

lemma decodeScenariosSerial_Matrix: "Matrix (fst (decodeScenariosSerial fp d sb)) = Matrix sb"
  by (simp add: decodeScenariosSerial_def decodeInto_Matrix serialLoop_Matrix)

lemma decodeScenariosConcurrent_Matrix:
  "Matrix (fst (decodeScenariosConcurrent fp sched d sb)) = Matrix sb"
  by (simp add: decodeScenariosConcurrent_def decodeScenariosSerial_Matrix Let_def)

lemma decodeScenariosConcurrent_diagnostics:
  "\<not> noVectors (Matrix sb) \<Longrightarrow>
     block_Diagnostics (fst (decodeScenariosConcurrent fp sched d sb)) = block_Diagnostics sb"
  by (simp add: decodeScenariosConcurrent_def Let_def)

lemma matrixStage_filter:
  assumes "DecodeTargetScenariosMatrixOnly \<le> DecodeTarget d"
    and "ScenarioFilter d = Some f"
    and "decodeMatrix fp (EvalContext d) (Block sb) = (Some m, ds)"
    and "1 < length (Vectors m)"
  shows "matrixStage fp d sb =
           (sb\<lparr>Matrix := matrix_Filter fp m f, block_Diagnostics := block_Diagnostics sb @ ds\<rparr>,
            noVectors (matrix_Filter fp m f))"
  using assms by (simp add: matrixStage_def)

lemma decodeBlock_schedule: "decodeBlock fp sched d sb = decodeBlock fp [] d sb"
  by (cases "matrixStage fp d sb") (simp add: decodeBlock_def chooseDecode_Serial)

lemma decodeScenario_decoder:
  "snd (decodeScenario fp d None block) = d \<and>
   snd (decodeScenario fp d (Some vec) block) = d\<lparr>EvalContext := Some (matrixCtx fp d vec)\<rparr>"
  by (simp add: decodeScenario_def Let_def split: prod.splits)

lemma matrixCtx_child:
  "Variables (matrixCtx fp d vec) = [(''matrix'', CtyVal fp vec)] \<and>
   parent (matrixCtx fp d vec) = EvalContext d"
  by (simp add: matrixCtx_def setVariables_def NewChild_def)

text \<open>
  C3: for a block decoded at the target \<open>ScenariosMatrixOnly\<close> or deeper, by a decoder
  with a scenario filter, whose decoded matrix is not nil and has more than one vector:
  the block's matrix is the result of filtering the decoded matrix with the filter; and
  when that result is nil or has no vectors, nothing else is decoded for the block: the
  block leaves the loop body with the filtered matrix and the matrix diagnostics added
  and with its scenarios as they were, and the decoder is as it was.
\<close>

theorem decodeBlock_filters_matrix:
  assumes "DecodeTargetScenariosMatrixOnly \<le> DecodeTarget d"
    and "ScenarioFilter d = Some f"
    and "decodeMatrix fp (EvalContext d) (Block sb) = (Some m, ds)"
    and "1 < length (Vectors m)"
  shows "Matrix (fst (decodeBlock fp sched d sb)) = matrix_Filter fp m f \<and>
         (noVectors (matrix_Filter fp m f) \<longrightarrow>
            decodeBlock fp sched d sb =
              (sb\<lparr>Matrix := matrix_Filter fp m f,
                  block_Diagnostics := block_Diagnostics sb @ ds\<rparr>, d))"
proof -
  let ?sb1 = "sb\<lparr>Matrix := matrix_Filter fp m f, block_Diagnostics := block_Diagnostics sb @ ds\<rparr>"
  have ms: "matrixStage fp d sb = (?sb1, noVectors (matrix_Filter fp m f))"
    using assms by (rule matrixStage_filter)
  have stop: "decodeBlock fp sched d sb = (?sb1, d)" if "noVectors (matrix_Filter fp m f)"
    using that by (simp add: decodeBlock_def ms)
  have "Matrix (fst (decodeBlock fp sched d sb)) = matrix_Filter fp m f"
  proof (cases "noVectors (matrix_Filter fp m f) \<or>
                DecodeTarget d < DecodeTargetScenariosNamesExpandVariants")
    case True
    then show ?thesis by (auto simp: decodeBlock_def ms)
  next
    case False
    then have "decodeBlock fp sched d sb =
        (case decodeScenariosSerial fp d ?sb1 of
           (sb2, d2) \<Rightarrow> (sb2\<lparr>Scenarios := sort_key (scenario_String fp) (Scenarios sb2)\<rparr>, d2))"
      by (simp add: decodeBlock_def ms chooseDecode_Serial)
    moreover have "Matrix (fst (decodeScenariosSerial fp d ?sb1)) = matrix_Filter fp m f"
      by (simp add: decodeScenariosSerial_Matrix)
    ultimately show ?thesis
      by (simp split: prod.splits)
  qed
  with stop show ?thesis by blast
qed

theorem decodeBlock_filters_matrix_witness:
  "DecodeTargetScenariosMatrixOnly \<le> DecodeTarget filteringDecoder \<and>
   ScenarioFilter filteringDecoder = Some noMatch \<and>
   decodeMatrix plan (EvalContext filteringDecoder) (Block (testScenarioBlock None))
     = (Some fooMatrix, []) \<and>
   1 < length (Vectors fooMatrix) \<and>
   matrix_Filter plan fooMatrix noMatch = Some \<lparr>Vectors = []\<rparr> \<and>
   noVectors (matrix_Filter plan fooMatrix noMatch) \<and>
   Matrix (fst (decodeBlock plan [] filteringDecoder (testScenarioBlock None)))
     = Some \<lparr>Vectors = []\<rparr> \<and>
   decodeBlock plan [] filteringDecoder (testScenarioBlock None)
     = (testScenarioBlock (Some \<lparr>Vectors = []\<rparr>), filteringDecoder)"
proof -
  have target: "DecodeTargetScenariosMatrixOnly \<le> DecodeTarget filteringDecoder"
    by (simp add: filteringDecoder_def rootDecoder_def DecodeTargetScenariosMatrixOnly_def
        DecodeTargetScenariosComplete_def)
  have flt: "ScenarioFilter filteringDecoder = Some noMatch"
    by (simp add: filteringDecoder_def rootDecoder_def)
  have dm: "decodeMatrix plan (EvalContext filteringDecoder) (Block (testScenarioBlock None))
      = (Some fooMatrix, [])"
    by (simp add: plan_def)
  have two: "1 < length (Vectors fooMatrix)"
    by (simp add: fooMatrix_def)
  have none: "matrix_Filter plan fooMatrix noMatch = Some \<lparr>Vectors = []\<rparr>"
    by (simp add: plan_def fooMatrix_def noMatch_def vecFoo_def vecBar_def)
  then have nv: "noVectors (matrix_Filter plan fooMatrix noMatch)"
    by (simp add: noVectors_def)
  from decodeBlock_filters_matrix [OF target flt dm two, of "[]"] nv
  have "Matrix (fst (decodeBlock plan [] filteringDecoder (testScenarioBlock None)))
          = Some \<lparr>Vectors = []\<rparr>"
    and "decodeBlock plan [] filteringDecoder (testScenarioBlock None)
          = (testScenarioBlock (Some \<lparr>Vectors = []\<rparr>), filteringDecoder)"
    by (simp_all add: none testScenarioBlock_def)
  with target flt dm two none nv show ?thesis
    by blast
qed

text \<open>
  C2 (the code departs from the claim): the guard of line 478 is \<open>Matrix == nil ||
  (Matrix != nil || len(Vectors) < 1)\<close>, which holds for every matrix, so the block is
  always decoded serially: also at the target \<open>ScenariosNamesExpandVariants\<close> with 8000
  vectors and at \<open>ScenariosComplete\<close> with 100.
\<close>

theorem chooseDecode_always_serial:
  "chooseDecode target m = Serial"
  by (cases m) (simp_all add: chooseDecode_def)

theorem chooseDecode_always_serial_witness:
  "chooseDecode DecodeTargetScenariosNamesExpandVariants
     (Some \<lparr>Vectors = replicate 8000 vecFoo\<rparr>) = Serial \<and>
   chooseDecode DecodeTargetScenariosComplete (Some \<lparr>Vectors = replicate 100 vecFoo\<rparr>) = Serial"
  using chooseDecode_always_serial [of DecodeTargetScenariosNamesExpandVariants
          "Some \<lparr>Vectors = replicate 8000 vecFoo\<rparr>"]
        chooseDecode_always_serial [of DecodeTargetScenariosComplete
          "Some \<lparr>Vectors = replicate 100 vecFoo\<rparr>"]
  by simp

text \<open>
  C4 (the code departs from the claim): \<open>decodeScenario\<close> for a vector assigns the child
  context it built to the decoder's \<open>EvalContext\<close> field. A decoder whose context is the
  empty root context holds, after the call for the vector \<open>foo:matrixfoo\<close>, the child
  context that binds \<open>matrix\<close>.
\<close>

theorem decodeScenario_mutates_decoder:
  "EvalContext completeDecoder = Some (Ctx [] None) \<and>
   EvalContext (snd (decodeScenario plan completeDecoder (Some vecFoo) testBlock))
     = Some (Ctx [(''matrix'', vecFoo)] (Some (Ctx [] None)))"
  by (simp add: decodeScenario_def plan_def completeDecoder_def rootDecoder_def matrixCtx_def
      setVariables_def NewChild_def Let_def)

text \<open>
  C1 (the code departs from the claim): for a matrix of one vector whose scenario fails
  to decode, the serial path leaves an error diagnostic in the block, and the
  concurrent path leaves none: it collects the diagnostics of its goroutines and never
  adds them to the block. Neither path keeps a scenario.
\<close>

theorem concurrent_drops_diagnostics:
  "HasErrors (block_Diagnostics (fst (decodeScenariosSerial planFailing completeDecoder oneVector))) \<and>
   Scenarios (fst (decodeScenariosSerial planFailing completeDecoder oneVector)) = [] \<and>
   \<not> HasErrors (block_Diagnostics (fst (decodeScenariosConcurrent planFailing [] completeDecoder oneVector))) \<and>
   Scenarios (fst (decodeScenariosConcurrent planFailing [] completeDecoder oneVector)) = []"
  by code_simp

text \<open>
  The goroutines share the decoder, and the assignment of \<open>decodeScenario\<close> to its
  \<open>EvalContext\<close> races with their reads: in the schedule where the goroutine of the
  second vector assigns its context before the first one decodes, the scenario of
  \<open>foo:matrixfoo\<close> is decoded against \<open>matrix = foo:matrixbar\<close>.
\<close>

lemma concurrent_race:
  "Scenarios (fst (decodeScenariosSerial planReading completeDecoder
      (testScenarioBlock (Some fooMatrix))))
     = [\<lparr>scenario_Name = ''test'', Variants = Some vecFoo, Steps = [''matrixfoo'']\<rparr>,
        \<lparr>scenario_Name = ''test'', Variants = Some vecBar, Steps = [''matrixbar'']\<rparr>] \<and>
   Scenarios (fst (decodeScenariosConcurrent planReading [0, 0, 1, 1, 0] completeDecoder
      (testScenarioBlock (Some fooMatrix))))
     = [\<lparr>scenario_Name = ''test'', Variants = Some vecFoo, Steps = [''matrixbar'']\<rparr>,
        \<lparr>scenario_Name = ''test'', Variants = Some vecBar, Steps = [''matrixbar'']\<rparr>]"
  by code_simp

subsection \<open>Further facts about the models\<close>

text \<open>
  Where every input diagnostic has its range, its snippet and the snippet's context,
  \<open>FromTFJSON\<close> does return one diagnostic for each, with the severity translated.
\<close>

lemma FromTFJSON_loop_present:
  assumes "\<forall>din \<in> set ins. \<exists>r sn c. tf_Range din = Some r \<and> tf_Snippet din = Some sn \<and> tf_Context sn = Some c"
  shows "\<exists>out'. FromTFJSON_loop ins out = Inr (out @ out') \<and> length out' = length ins \<and>
           map Severity out' = map (\<lambda>din. tfSeverity (tf_Severity din)) ins"
  using assms
proof (induction ins arbitrary: out)
  case Nil
  then show ?case by simp
next
  case (Cons din ins)
  then obtain r sn c where p: "tf_Range din = Some r" "tf_Snippet din = Some sn" "tf_Context sn = Some c"
    by auto
  then obtain d where d: "fromTFJSONDiag din = Inr d" and sev: "Severity d = tfSeverity (tf_Severity din)"
    by (simp add: fromTFJSONDiag_def)
  from Cons.prems have "\<forall>x \<in> set ins. \<exists>r sn c. tf_Range x = Some r \<and> tf_Snippet x = Some sn \<and> tf_Context sn = Some c"
    by simp
  from Cons.IH [OF this, of "out @ [d]"] obtain out' where
    "FromTFJSON_loop ins (out @ [d]) = Inr ((out @ [d]) @ out')" "length out' = length ins"
    "map Severity out' = map (\<lambda>din. tfSeverity (tf_Severity din)) ins"
    by blast
  with d sev show ?case
    by (intro exI [of _ "d # out'"]) simp
qed

text \<open>
  A goroutine that takes its five steps in a row does what one call of
  \<open>decodeScenario\<close> does, its diagnostics and its scenario going to the collector.
\<close>

lemma worker_atomic:
  assumes "i < length (fan_workers st)"
    and "fan_workers st ! i = Started vec"
    and "decodeScenario fp (fan_decoder st) (Some vec) block = ((keep, scenario, ds), d')"
  shows "runSchedule fp block (replicate 5 i) st =
           st\<lparr>fan_decoder := d',
              fan_workers := (fan_workers st)[i := Finished],
              collected_diags := collected_diags st @ ds,
              collected_scenarios :=
                (if keep then collected_scenarios st @ [scenario] else collected_scenarios st)\<rparr>"
proof -
  have five: "replicate 5 i = [i, i, i, i, i]"
    by (simp add: numeral_eq_Suc)
  obtain sc' ds' where dec:
    "scenario_decode fp ((NewScenario fp)\<lparr>Variants := Some vec\<rparr>) block
       (NewChild (Some (matrixCtx fp (fan_decoder st) vec))) (DecodeTarget (fan_decoder st)) = (sc', ds')"
    by (cases "scenario_decode fp ((NewScenario fp)\<lparr>Variants := Some vec\<rparr>) block
       (NewChild (Some (matrixCtx fp (fan_decoder st) vec))) (DecodeTarget (fan_decoder st))")
  with assms(3) have res: "keep = (\<not> HasErrors ds')" "scenario = sc'" "ds = ds'"
      "d' = (fan_decoder st)\<lparr>EvalContext := Some (matrixCtx fp (fan_decoder st) vec)\<rparr>"
    by (auto simp: decodeScenario_def Let_def)
  show ?thesis
    using assms(1,2) dec
    by (simp add: five runSchedule_def workerStep_def res)
qed

end
